theory Spec2Isabelle
  imports Complex_Main
begin

section \<open>Python values and dictionaries\<close>

text \<open>
  The fields typed \<open>Any\<close> in the sources hold JSON-like data: \<open>None\<close>, booleans,
  integers, floats, strings, lists, tuples and dictionaries with string keys. A dictionary
  keeps its insertion order, so it is an association list with distinct keys; assigning to
  a key that is present keeps the key's position, assigning to a new key appends it.
\<close>

datatype pyval =
    PNone
  | PBool bool
  | PInt int
  | PFloat real
  | PStr string
  | PList "pyval list"
  | PTuple "pyval list"
  | PDict "(string \<times> pyval) list"

type_synonym 'v dict = "(string \<times> 'v) list"

definition dict_get :: "'v dict \<Rightarrow> string \<Rightarrow> 'v option" where
  "dict_get d k = map_of d k"

definition dict_has :: "'v dict \<Rightarrow> string \<Rightarrow> bool" where
  "dict_has d k = (map_of d k \<noteq> None)"

fun dict_set :: "'v dict \<Rightarrow> string \<Rightarrow> 'v \<Rightarrow> 'v dict" where
  "dict_set [] k v = [(k, v)]"
| "dict_set ((k', v') # d) k v =
     (if k' = k then (k, v) # d else (k', v') # dict_set d k v)"

definition dict_del :: "'v dict \<Rightarrow> string \<Rightarrow> 'v dict" where
  "dict_del d k = filter (\<lambda>kv. fst kv \<noteq> k) d"

definition dict_keys :: "'v dict \<Rightarrow> string list" where
  "dict_keys d = map fst d"

text \<open>Python's truth value of an object, as \<open>if x:\<close> and \<open>x or y\<close> test it.\<close>

fun truthy :: "pyval \<Rightarrow> bool" where
  "truthy PNone = False"
| "truthy (PBool b) = b"
| "truthy (PInt i) = (i \<noteq> 0)"
| "truthy (PFloat x) = (x \<noteq> 0)"
| "truthy (PStr s) = (s \<noteq> [])"
| "truthy (PList xs) = (xs \<noteq> [])"
| "truthy (PTuple xs) = (xs \<noteq> [])"
| "truthy (PDict d) = (d \<noteq> [])"

text \<open>\<open>str(KeyError(k))\<close> is the key's \<open>repr\<close>: the key between single quotes.\<close>

definition key_error :: "string \<Rightarrow> string" where
  "key_error k = [CHR 0x27] @ k @ [CHR 0x27]"

text \<open>\<open>s.endswith(suffix)\<close>.\<close>

definition endswith :: "string \<Rightarrow> string \<Rightarrow> bool" where
  "endswith s suf = (length suf \<le> length s \<and> drop (length s - length suf) s = suf)"

text \<open>
  An awaited call of a collaborator returns a value, raises an exception (carried as
  its \<open>str(e)\<close>), or never returns.
\<close>

datatype 'a outcome = Returned 'a | Raised string | Hangs

section \<open>The shared-cache client (utils/redis\_client.py)\<close>

text \<open>
  The standard library's \<open>json.dumps\<close>, \<open>json.loads\<close> and \<open>str\<close> are
  parameters: \<open>dumps\<close> gives \<open>None\<close> where \<open>json.dumps\<close> raises (a value that is
  not JSON serializable), \<open>loads\<close> gives \<open>None\<close> where \<open>json.loads\<close> raises
  \<open>JSONDecodeError\<close>.
\<close>

record json =
  dumps :: "pyval \<Rightarrow> string option"
  loads :: "string \<Rightarrow> pyval option"
  str_of :: "pyval \<Rightarrow> string"

record RedisClient =
  connection_string :: string
  storage :: "string dict"

definition isinstance_dict_list :: "pyval \<Rightarrow> bool" where
  "isinstance_dict_list v = (case v of PDict _ \<Rightarrow> True | PList _ \<Rightarrow> True | _ \<Rightarrow> False)"

text \<open>
  \<open>RedisClient.set\<close>: a dictionary or list is stored as its JSON text, anything else
  as its \<open>str\<close>; an exception of the encoder is caught and the call returns \<open>False\<close>
  with nothing stored. The \<open>expire\<close> argument is only logged.
\<close>

definition set_redis :: "json \<Rightarrow> RedisClient \<Rightarrow> string \<Rightarrow> pyval \<Rightarrow> bool \<times> RedisClient" where
  "set_redis J c key v =
     (if isinstance_dict_list v then
        (case dumps J v of
           Some s \<Rightarrow> (True, c\<lparr>storage := dict_set (storage c) key s\<rparr>)
         | None \<Rightarrow> (False, c))
      else (True, c\<lparr>storage := dict_set (storage c) key (str_of J v)\<rparr>))"

text \<open>
  \<open>RedisClient.get\<close>: \<open>None\<close> for a key that is not stored; otherwise the stored text
  decoded as JSON, or the text itself when it is not JSON.
\<close>

definition get_redis :: "json \<Rightarrow> RedisClient \<Rightarrow> string \<Rightarrow> pyval" where
  "get_redis J c key =
     (case dict_get (storage c) key of
        None \<Rightarrow> PNone
      | Some text \<Rightarrow> (case loads J text of Some v \<Rightarrow> v | None \<Rightarrow> PStr text))"

definition delete_redis :: "RedisClient \<Rightarrow> string \<Rightarrow> bool \<times> RedisClient" where
  "delete_redis c key =
     (if dict_has (storage c) key
      then (True, c\<lparr>storage := dict_del (storage c) key\<rparr>)
      else (True, c))"

definition exists_redis :: "RedisClient \<Rightarrow> string \<Rightarrow> bool" where
  "exists_redis c key = dict_has (storage c) key"

section \<open>The session state (orchestrator/graph.py, AnalysisState)\<close>

text \<open>
  A file of the request is a dictionary from strings to strings (\<open>Dict[str, str]\<close>);
  the code reads its keys \<open>path\<close> and \<open>content\<close>.
\<close>

record AnalysisState =
  session_id :: string
  project_id :: int
  files :: "string dict list"
  parsed_elements :: "pyval dict"
  agent_outputs :: "pyval dict"
  current_agent :: "string option"
  errors :: "string list"
  progress :: "pyval dict"
  metadata :: "pyval dict"

definition file_val :: "string dict \<Rightarrow> pyval" where
  "file_val f = PDict (map (\<lambda>kv. (fst kv, PStr (snd kv))) f)"

definition opt_str_val :: "string option \<Rightarrow> pyval" where
  "opt_str_val a = (case a of None \<Rightarrow> PNone | Some t \<Rightarrow> PStr t)"

text \<open>\<open>AnalysisState.to_dict\<close>: one entry per field, under the field's name.\<close>

definition to_dict :: "AnalysisState \<Rightarrow> pyval dict" where
  "to_dict s =
     [(''session_id'', PStr (session_id s)),
      (''project_id'', PInt (project_id s)),
      (''files'', PList (map file_val (files s))),
      (''parsed_elements'', PDict (parsed_elements s)),
      (''agent_outputs'', PDict (agent_outputs s)),
      (''current_agent'', opt_str_val (current_agent s)),
      (''errors'', PList (map PStr (errors s))),
      (''progress'', PDict (progress s)),
      (''metadata'', PDict (metadata s))]"

text \<open>Reading a value back at the type of a field.\<close>

definition as_str :: "pyval \<Rightarrow> string option" where
  "as_str v = (case v of PStr t \<Rightarrow> Some t | _ \<Rightarrow> None)"

definition as_int :: "pyval \<Rightarrow> int option" where
  "as_int v = (case v of PInt i \<Rightarrow> Some i | _ \<Rightarrow> None)"

definition as_dict :: "pyval \<Rightarrow> pyval dict option" where
  "as_dict v = (case v of PDict d \<Rightarrow> Some d | _ \<Rightarrow> None)"

definition as_opt_str :: "pyval \<Rightarrow> string option option" where
  "as_opt_str v = (case v of PNone \<Rightarrow> Some None | PStr t \<Rightarrow> Some (Some t) | _ \<Rightarrow> None)"

definition as_str_list :: "pyval \<Rightarrow> string list option" where
  "as_str_list v = (case v of PList vs \<Rightarrow> those (map as_str vs) | _ \<Rightarrow> None)"

definition as_file :: "pyval \<Rightarrow> string dict option" where
  "as_file v =
     (case v of
        PDict d \<Rightarrow> those (map (\<lambda>kv. map_option (\<lambda>t. (fst kv, t)) (as_str (snd kv))) d)
      | _ \<Rightarrow> None)"

definition as_files :: "pyval \<Rightarrow> string dict list option" where
  "as_files v = (case v of PList vs \<Rightarrow> those (map as_file vs) | _ \<Rightarrow> None)"

definition field_or :: "pyval dict \<Rightarrow> string \<Rightarrow> (pyval \<Rightarrow> 'a option) \<Rightarrow> 'a \<Rightarrow> 'a option" where
  "field_or d k rd dflt = (case dict_get d k of None \<Rightarrow> Some dflt | Some v \<Rightarrow> rd v)"

definition field_names :: "string list" where
  "field_names =
     [''session_id'', ''project_id'', ''files'', ''parsed_elements'', ''agent_outputs'',
      ''current_agent'', ''errors'', ''progress'', ''metadata'']"

text \<open>
  Modelled from the spec: the reconstruction of a session state from its dictionary
  (section 4.1, "reconstruction from that structure") has no function of its own in the
  sources. It is the constructor the \<open>dataclass\<close> declaration of \<open>AnalysisState\<close>
  generates, called with the dictionary's entries as keyword arguments: \<open>session_id\<close>
  and \<open>project_id\<close> are required, every other field has its declared default, and a
  key that is not a field is refused. \<open>None\<close> stands for the constructor's
  \<open>TypeError\<close>, and for a value that is not of the field's declared type.
\<close>

definition from_dict :: "pyval dict \<Rightarrow> AnalysisState option" where
  "from_dict d =
     (if \<not> list_all (\<lambda>k. k \<in> set field_names) (dict_keys d) then None
      else
        Option.bind (Option.bind (dict_get d ''session_id'') as_str) (\<lambda>sid.
        Option.bind (Option.bind (dict_get d ''project_id'') as_int) (\<lambda>pid.
        Option.bind (field_or d ''files'' as_files []) (\<lambda>fs.
        Option.bind (field_or d ''parsed_elements'' as_dict []) (\<lambda>pe.
        Option.bind (field_or d ''agent_outputs'' as_dict []) (\<lambda>ao.
        Option.bind (field_or d ''current_agent'' as_opt_str None) (\<lambda>ca.
        Option.bind (field_or d ''errors'' as_str_list []) (\<lambda>es.
        Option.bind (field_or d ''progress'' as_dict []) (\<lambda>pr.
        Option.bind (field_or d ''metadata'' as_dict []) (\<lambda>md.
          Some \<lparr>session_id = sid, project_id = pid, files = fs, parsed_elements = pe,
                agent_outputs = ao, current_agent = ca, errors = es, progress = pr,
                metadata = md\<rparr>))))))))))"

section \<open>The stage's LLM call (agents/base\_agent.py)\<close>

datatype message = SystemMessage string | HumanMessage string | AIMessage string

fun content :: "message \<Rightarrow> string" where
  "content (SystemMessage t) = t"
| "content (HumanMessage t) = t"
| "content (AIMessage t) = t"

fun isinstance_SystemMessage :: "message \<Rightarrow> bool" where
  "isinstance_SystemMessage (SystemMessage t) = True"
| "isinstance_SystemMessage m = False"

text \<open>An instant of \<open>datetime.utcnow()\<close>.\<close>

type_synonym datetime = nat

record AgentConfig =
  model :: string
  temperature :: real
  max_tokens :: int
  tone :: string
  system_prompt :: string
  tools :: "string list"

record AgentResult =
  success :: bool
  data :: pyval
  result_metadata :: "pyval dict"
  result_errors :: "string list"
  processing_time :: real
  tokens_used :: "int option"

text \<open>
  The agent: \<open>llm\<close> is \<open>None\<close> or the client, whose \<open>ainvoke\<close> returns the
  response's content, raises or never returns.
\<close>

record BaseAgent =
  config :: AgentConfig
  llm :: "(message list \<Rightarrow> string outcome) option"
  is_active :: bool
  last_run :: "datetime option"
  total_runs :: int
  total_tokens :: int

text \<open>
  The abstract methods of the subclass (\<open>Inl\<close> is an exception they raise), and the
  readings of the clock during one call: \<open>time.time()\<close> at the start and at the end,
  \<open>datetime.utcnow()\<close> at the update of the counters.
\<close>

record agent_methods =
  get_system_prompt :: "string \<Rightarrow> string + string"
  process_response :: "string \<Rightarrow> pyval dict \<Rightarrow> string + pyval"

record clock =
  time_start :: real
  time_end :: real
  utcnow :: datetime

text \<open>\<open>_estimate_tokens\<close>: a quarter of the characters, rounded down.\<close>

definition estimate_tokens :: "message list \<Rightarrow> string \<Rightarrow> int" where
  "estimate_tokens messages response =
     (int (sum_list (map (\<lambda>m. length (content m)) messages)) + int (length response)) div 4"

definition failure_result :: "clock \<Rightarrow> BaseAgent \<Rightarrow> string \<Rightarrow> AgentResult" where
  "failure_result K a e =
     \<lparr>success = False, data = PDict [],
      result_metadata =
        [(''model'', PStr (model (config a))), (''tone'', PStr (tone (config a))),
         (''processing_time'', PFloat (time_end K - time_start K)), (''error'', PStr e)],
      result_errors = [e],
      processing_time = time_end K - time_start K,
      tokens_used = None\<rparr>"

definition success_result :: "clock \<Rightarrow> BaseAgent \<Rightarrow> pyval \<Rightarrow> int \<Rightarrow> AgentResult" where
  "success_result K a processed est =
     \<lparr>success = True, data = processed,
      result_metadata =
        [(''model'', PStr (model (config a))), (''tone'', PStr (tone (config a))),
         (''processing_time'', PFloat (time_end K - time_start K)),
         (''estimated_tokens'', PInt est)],
      result_errors = [],
      processing_time = time_end K - time_start K,
      tokens_used = Some est\<rparr>"

text \<open>
  \<open>BaseAgent._call_llm\<close>. Every exception raised inside the \<open>try\<close> block ends in
  the handler, which builds the failed result and touches no counter; the counters are
  updated on the path that reaches the end of the \<open>try\<close> block. The result is the
  agent after the call and what the call does.
\<close>

definition call_llm ::
  "agent_methods \<Rightarrow> clock \<Rightarrow> BaseAgent \<Rightarrow> message list \<Rightarrow> pyval dict \<Rightarrow> BaseAgent \<times> AgentResult outcome" where
  "call_llm M K a messages context =
     (case (if is_active a then llm a else None) of
        None \<Rightarrow> (a, Returned (failure_result K a ''Agent is not active or LLM not initialized''))
      | Some ainvoke \<Rightarrow>
          (case (if list_ex isinstance_SystemMessage messages then Inr messages
                 else (case get_system_prompt M (tone (config a)) of
                         Inl e \<Rightarrow> Inl e
                       | Inr p \<Rightarrow> Inr (SystemMessage p # messages))) of
             Inl e \<Rightarrow> (a, Returned (failure_result K a e))
           | Inr msgs \<Rightarrow>
               (case ainvoke msgs of
                  Hangs \<Rightarrow> (a, Hangs)
                | Raised e \<Rightarrow> (a, Returned (failure_result K a e))
                | Returned response \<Rightarrow>
                    (case process_response M response context of
                       Inl e \<Rightarrow> (a, Returned (failure_result K a e))
                     | Inr processed \<Rightarrow>
                         (let est = estimate_tokens msgs response;
                              a' = a\<lparr>last_run := Some (utcnow K),
                                     total_runs := total_runs a + 1,
                                     total_tokens := total_tokens a + est\<rparr>
                          in (a', Returned (success_result K a' processed est)))))))"

text \<open>\<open>BaseAgent.reset_stats\<close>.\<close>

definition reset_stats :: "BaseAgent \<Rightarrow> BaseAgent" where
  "reset_stats a = a\<lparr>last_run := None, total_runs := 0, total_tokens := 0\<rparr>"

section \<open>The orchestrator's collaborators\<close>

text \<open>
  Exceptions of the interpreter that the orchestrator's code can meet: the type's name
  in the message of an \<open>AttributeError\<close>, and the \<open>TypeError\<close> of an item
  assignment on a value that is not a dictionary.
\<close>

fun type_name :: "pyval \<Rightarrow> string" where
  "type_name PNone = ''NoneType''"
| "type_name (PBool b) = ''bool''"
| "type_name (PInt i) = ''int''"
| "type_name (PFloat x) = ''float''"
| "type_name (PStr t) = ''str''"
| "type_name (PList xs) = ''list''"
| "type_name (PTuple xs) = ''tuple''"
| "type_name (PDict d) = ''dict''"

definition no_attribute :: "pyval \<Rightarrow> string \<Rightarrow> string" where
  "no_attribute v a =
     [CHR 0x27] @ type_name v @ [CHR 0x27] @ '' object has no attribute '' @ key_error a"

definition no_item_assignment :: "pyval \<Rightarrow> string" where
  "no_item_assignment v =
     (case v of
        PList xs \<Rightarrow> ''list indices must be integers or slices, not str''
      | _ \<Rightarrow> [CHR 0x27] @ type_name v @ [CHR 0x27] @ '' object does not support item assignment'')"

text \<open>\<open>d[k1][k2] = v\<close> on a dictionary of dictionaries.\<close>

definition setitem2 :: "pyval dict \<Rightarrow> string \<Rightarrow> string \<Rightarrow> pyval \<Rightarrow> string + pyval dict" where
  "setitem2 d k1 k2 v =
     (case dict_get d k1 of
        None \<Rightarrow> Inl (key_error k1)
      | Some (PDict inner) \<Rightarrow> Inr (dict_set d k1 (PDict (dict_set inner k2 v)))
      | Some other \<Rightarrow> Inl (no_item_assignment other))"

text \<open>\<open>d.get(k)\<close> and \<open>d.get(k, default)\<close>.\<close>

definition get_default :: "pyval dict \<Rightarrow> string \<Rightarrow> pyval \<Rightarrow> pyval" where
  "get_default d k dflt = (case dict_get d k of None \<Rightarrow> dflt | Some v \<Rightarrow> v)"

definition get_path :: "string dict \<Rightarrow> string" where
  "get_path file_data = (case dict_get file_data ''path'' of Some p \<Rightarrow> p | None \<Rightarrow> [])"

text \<open>\<open>sep.join(xs)\<close>.\<close>

fun join :: "string \<Rightarrow> string list \<Rightarrow> string" where
  "join sep [] = []"
| "join sep [x] = x"
| "join sep (x # y # ys) = x @ sep @ join sep (y # ys)"

text \<open>
  What the orchestrator calls and does not define. The parser's \<open>parse_php_file\<close> and
  \<open>parse_js_file\<close> take the content and the path and return the elements or raise
  (\<open>Inl\<close>); utils/php\_parser.py defines neither. The documenter's \<open>analyze\<close> takes
  the parsed elements, the project id, the model and the tone. The durable store's
  \<open>update_session_status\<close>, \<open>store_agent_output\<close> and \<open>get_analysis_session\<close>
  act on a store of type \<open>'db\<close> and return the store after the call or raise;
  utils/database.py defines none of them. \<open>started_at\<close> and \<open>collected_at\<close> are the
  readings of \<open>datetime.utcnow().isoformat()\<close> in \<open>run_analysis\<close> and in
  \<open>_collect_results\<close>.
\<close>

record 'db collaborators =
  parse_php_file :: "string \<Rightarrow> string \<Rightarrow> string + pyval"
  parse_js_file :: "string \<Rightarrow> string \<Rightarrow> string + pyval"
  analyze :: "pyval dict \<Rightarrow> int \<Rightarrow> pyval \<Rightarrow> pyval \<Rightarrow> pyval outcome"
  update_session_status :: "'db \<Rightarrow> string \<Rightarrow> string \<Rightarrow> string option \<Rightarrow> string + 'db"
  store_agent_output :: "'db \<Rightarrow> int \<Rightarrow> string \<Rightarrow> string \<Rightarrow> pyval \<Rightarrow> string + 'db"
  get_analysis_session :: "'db \<Rightarrow> string \<Rightarrow> pyval outcome"
  started_at :: string
  collected_at :: string

text \<open>The names under which the agents are registered (\<open>self.agents.keys()\<close>).\<close>

definition agent_names :: "string list" where
  "agent_names = [''documenter'']"

section \<open>The nodes of the workflow (orchestrator/graph.py)\<close>

definition started :: pyval where
  "started = PDict [(''status'', PStr ''started'')]"

text \<open>
  One iteration of the loop of \<open>_parse_code\<close>, up to its handler. First the reads of
  \<open>path\<close> and \<open>content\<close> and the parser's call by the path's ending: the exception
  raised, or the local \<open>parsed_elements\<close> after them.
\<close>

definition parse_elements_of :: "'db collaborators \<Rightarrow> string dict \<Rightarrow> pyval dict \<Rightarrow> string + pyval dict" where
  "parse_elements_of C file_data pe =
     (case dict_get file_data ''path'' of
        None \<Rightarrow> Inl (key_error ''path'')
      | Some file_path \<Rightarrow>
          (case dict_get file_data ''content'' of
             None \<Rightarrow> Inl (key_error ''content'')
           | Some file_content \<Rightarrow>
               if endswith file_path ''.php''
               then map_sum id (dict_set pe file_path) (parse_php_file C file_content file_path)
               else if endswith file_path ''.js'' \<or> endswith file_path ''.vue''
               then map_sum id (dict_set pe file_path) (parse_js_file C file_content file_path)
               else Inr pe))"

text \<open>
  Then the count of processed files: the exception the iteration raises, if any, with
  the state and the local \<open>parsed_elements\<close> as they are then.
\<close>

definition parse_file :: "'db collaborators \<Rightarrow> nat \<Rightarrow> string dict \<Rightarrow> AnalysisState \<Rightarrow> pyval dict
    \<Rightarrow> string option \<times> AnalysisState \<times> pyval dict" where
  "parse_file C i file_data st pe =
     (case parse_elements_of C file_data pe of
        Inl e \<Rightarrow> (Some e, st, pe)
      | Inr pe' \<Rightarrow>
          (case setitem2 (progress st) ''parsing'' ''files_processed'' (PInt (int i + 1)) of
             Inl e \<Rightarrow> (Some e, st, pe')
           | Inr pr \<Rightarrow> (None, st\<lparr>progress := pr\<rparr>, pe')))"

text \<open>
  The loop with its handler: a failure of one file appends \<open>Parse error in <path>\<close>
  and the loop goes on. The handler reads \<open>file_data['path']\<close> itself, so for a file
  without that key the handler raises, and the exception leaves the loop.
\<close>

fun parse_files :: "'db collaborators \<Rightarrow> nat \<Rightarrow> string dict list \<Rightarrow> AnalysisState \<Rightarrow> pyval dict
    \<Rightarrow> string option \<times> AnalysisState \<times> pyval dict" where
  "parse_files C i [] st pe = (None, st, pe)"
| "parse_files C i (file_data # rest) st pe =
     (case parse_file C i file_data st pe of
        (None, st', pe') \<Rightarrow> parse_files C (Suc i) rest st' pe'
      | (Some e, st', pe') \<Rightarrow>
          (case dict_get file_data ''path'' of
             None \<Rightarrow> (Some (key_error ''path''), st', pe')
           | Some p \<Rightarrow>
               parse_files C (Suc i) rest
                 (st'\<lparr>errors := errors st' @ [''Parse error in '' @ p @ '': '' @ e]\<rparr>) pe'))"

definition parse_code :: "'db collaborators \<Rightarrow> AnalysisState \<Rightarrow> AnalysisState" where
  "parse_code C st =
     (let st1 = st\<lparr>current_agent := Some ''parser'',
                   progress := dict_set (progress st) ''parsing''
                     (PDict [(''status'', PStr ''started''), (''files_processed'', PInt 0)])\<rparr>
      in case parse_files C 0 (files st1) st1 [] of
           (Some e, st2, pe) \<Rightarrow> st2\<lparr>errors := errors st2 @ [''Code parsing failed: '' @ e]\<rparr>
         | (None, st2, pe) \<Rightarrow>
             (case setitem2 (progress st2) ''parsing'' ''status'' (PStr ''completed'') of
                Inl e \<Rightarrow> st2\<lparr>parsed_elements := pe,
                              errors := errors st2 @ [''Code parsing failed: '' @ e]\<rparr>
              | Inr pr \<Rightarrow> st2\<lparr>parsed_elements := pe, progress := pr\<rparr>))"

definition route_to_agents :: "AnalysisState \<Rightarrow> AnalysisState" where
  "route_to_agents st =
     (let st1 = st\<lparr>current_agent := Some ''router'',
                   progress := dict_set (progress st) ''routing'' started\<rparr>;
          configured = get_default (metadata st1) ''agents_config'' (PDict []);
          agents_to_run = (if \<not> truthy configured
                           then PDict (map (\<lambda>name. (name, PBool True)) agent_names)
                           else configured);
          failed = (\<lambda>s e. s\<lparr>errors := errors s @ [''Agent routing failed: '' @ e]\<rparr>)
      in case agents_to_run of
           PDict d \<Rightarrow>
             (case setitem2 (progress st1) ''routing'' ''agents_to_run''
                     (PList (map PStr (dict_keys d))) of
                Inl e \<Rightarrow> failed st1 e
              | Inr pr \<Rightarrow>
                  (case setitem2 pr ''routing'' ''status'' (PStr ''completed'') of
                     Inl e \<Rightarrow> failed (st1\<lparr>progress := pr\<rparr>) e
                   | Inr pr' \<Rightarrow> st1\<lparr>progress := pr'\<rparr>))
         | other \<Rightarrow> failed st1 (no_attribute other ''keys''))"

text \<open>
  A node returns the state, or never returns: the state is then left as it was when the
  node began to wait.
\<close>

datatype 'w run = Done 'w | Stuck 'w

text \<open>
  \<open>state.metadata.get("agents_config", {}).get("documenter", True)\<close>: the switch of
  the documenter, or the \<open>AttributeError\<close> of a configuration that is not a dictionary.
\<close>

definition documenter_switch :: "AnalysisState \<Rightarrow> string + pyval" where
  "documenter_switch st =
     (case get_default (metadata st) ''agents_config'' (PDict []) of
        PDict d \<Rightarrow> Inr (get_default d ''documenter'' (PBool True))
      | other \<Rightarrow> Inl (no_attribute other ''get''))"

definition run_documenter :: "'db collaborators \<Rightarrow> AnalysisState \<Rightarrow> AnalysisState run" where
  "run_documenter C st =
     (let failed = (\<lambda>s e. s\<lparr>errors := errors s @ [''Documenter agent failed: '' @ e]\<rparr>)
      in case documenter_switch st of
           Inl e \<Rightarrow> Done (failed st e)
         | Inr switch \<Rightarrow>
             if \<not> truthy switch then Done st
             else
               (let st1 = st\<lparr>current_agent := Some ''documenter'',
                             progress := dict_set (progress st) ''documenter'' started\<rparr>
                in case analyze C (parsed_elements st1) (project_id st1)
                          (get_default (metadata st1) ''model'' PNone)
                          (get_default (metadata st1) ''tone'' PNone) of
                     Hangs \<Rightarrow> Stuck st1
                   | Raised e \<Rightarrow> Done (failed st1 e)
                   | Returned results \<Rightarrow>
                       (let st2 = st1\<lparr>agent_outputs :=
                                        dict_set (agent_outputs st1) ''documenter'' results\<rparr>
                        in case setitem2 (progress st2) ''documenter'' ''status'' (PStr ''completed'') of
                             Inl e \<Rightarrow> Done (failed st2 e)
                           | Inr pr \<Rightarrow> Done (st2\<lparr>progress := pr\<rparr>))))"

text \<open>
  \<open>_collect_results\<close>. In the source the entries \<open>results\<close> and \<open>errors\<close> of the
  aggregate are the state's own \<open>agent_outputs\<close> and \<open>errors\<close> objects, not copies;
  here they hold the contents of the two at the time of the collection.
\<close>

definition collect_results :: "'db collaborators \<Rightarrow> AnalysisState \<Rightarrow> AnalysisState" where
  "collect_results C st =
     (let st1 = st\<lparr>current_agent := Some ''collector'',
                   progress := dict_set (progress st) ''collection'' started\<rparr>;
          aggregated_results = PDict
            [(''session_id'', PStr (session_id st1)),
             (''project_id'', PInt (project_id st1)),
             (''timestamp'', PStr (collected_at C)),
             (''agents_run'', PList (map PStr (dict_keys (agent_outputs st1)))),
             (''results'', PDict (agent_outputs st1)),
             (''metadata'', PDict (metadata st1)),
             (''errors'', PList (map PStr (errors st1)))];
          st2 = st1\<lparr>agent_outputs := dict_set (agent_outputs st1) ''aggregated'' aggregated_results\<rparr>
      in case setitem2 (progress st2) ''collection'' ''status'' (PStr ''completed'') of
           Inl e \<Rightarrow> st2\<lparr>errors := errors st2 @ [''Results collection failed: '' @ e]\<rparr>
         | Inr pr \<Rightarrow> st2\<lparr>progress := pr\<rparr>)"

definition get_output_type :: "string \<Rightarrow> string" where
  "get_output_type agent_type =
     (case map_of [(''documenter'', ''documentation''), (''tester'', ''tests''),
                   (''security_auditor'', ''security_report''),
                   (''performance_optimizer'', ''performance_report'')] agent_type of
        Some t \<Rightarrow> t
      | None \<Rightarrow> ''other'')"

text \<open>The loop of \<open>_store_results\<close>: the exception that ends it, if any, and the store.\<close>

fun store_outputs :: "'db collaborators \<Rightarrow> int \<Rightarrow> pyval dict \<Rightarrow> 'db \<Rightarrow> string option \<times> 'db" where
  "store_outputs C pid [] db = (None, db)"
| "store_outputs C pid ((agent_type, output) # rest) db =
     (if agent_type = ''aggregated'' then store_outputs C pid rest db
      else (case store_agent_output C db pid agent_type (get_output_type agent_type) output of
              Inl e \<Rightarrow> (Some e, db)
            | Inr db' \<Rightarrow> store_outputs C pid rest db'))"

definition store_results :: "'db collaborators \<Rightarrow> AnalysisState \<times> 'db \<Rightarrow> AnalysisState \<times> 'db" where
  "store_results C w =
     (let st1 = (fst w)\<lparr>current_agent := Some ''storer'',
                        progress := dict_set (progress (fst w)) ''storage'' started\<rparr>;
          failed = (\<lambda>s e. s\<lparr>errors := errors s @ [''Results storage failed: '' @ e]\<rparr>)
      in case store_outputs C (project_id st1) (agent_outputs st1) (snd w) of
           (Some e, db') \<Rightarrow> (failed st1 e, db')
         | (None, db') \<Rightarrow>
             (case setitem2 (progress st1) ''storage'' ''status'' (PStr ''completed'') of
                Inl e \<Rightarrow> (failed st1 e, db')
              | Inr pr \<Rightarrow> (st1\<lparr>progress := pr\<rparr>, db')))"

text \<open>
  \<open>_handle_errors\<close>: with errors in the state, the session is marked \<open>failed\<close> in the
  store with the errors joined; an exception in the node is logged and the state returned.
\<close>

definition handle_errors :: "'db collaborators \<Rightarrow> AnalysisState \<times> 'db \<Rightarrow> AnalysisState \<times> 'db" where
  "handle_errors C w =
     (let st1 = (fst w)\<lparr>current_agent := Some ''error_handler'',
                        progress := dict_set (progress (fst w)) ''error_handling'' started\<rparr>;
          finish = (\<lambda>db'. case setitem2 (progress st1) ''error_handling'' ''status'' (PStr ''completed'') of
                             Inl e \<Rightarrow> (st1, db')
                           | Inr pr \<Rightarrow> (st1\<lparr>progress := pr\<rparr>, db'))
      in if errors st1 \<noteq> []
         then (case update_session_status C (snd w) (session_id st1) ''failed''
                      (Some (join ''; '' (errors st1))) of
                 Inl e \<Rightarrow> (st1, snd w)
               | Inr db' \<Rightarrow> finish db')
         else finish (snd w))"

definition should_continue :: "AnalysisState \<Rightarrow> string" where
  "should_continue st = (if errors st \<noteq> [] then ''error'' else ''continue'')"

section \<open>The workflow graph and its driver\<close>

datatype node =
  ParseCode | RouteToAgents | RunDocumenter | CollectResults | StoreResults | HandleErrors | END

text \<open>The edges and the conditional edges that \<open>_build_workflow\<close> adds.\<close>

definition entry_point :: node where
  "entry_point = ParseCode"

definition edges :: "(node \<times> node) list" where
  "edges =
     [(ParseCode, RouteToAgents), (RouteToAgents, RunDocumenter),
      (RunDocumenter, CollectResults), (CollectResults, StoreResults),
      (StoreResults, END), (HandleErrors, END)]"

definition conditional_edges :: "(string \<times> node) list" where
  "conditional_edges = [(''continue'', RouteToAgents), (''error'', HandleErrors)]"

text \<open>
  The driver of the graph is the graph library's, not part of the sources; the sources
  fix which nodes an edge leads to. The nodes that start after a node are the targets of
  its plain edges and, after \<open>parse_code\<close>, the target that the guard
  \<open>_should_continue\<close> picks among the conditional edges. \<open>parse_code\<close> has edges of
  both kinds: its plain edge starts \<open>route_to_agents\<close> whatever the guard answers, and
  with errors the guard starts \<open>handle_errors\<close> as well.
\<close>

definition successors :: "node \<Rightarrow> AnalysisState \<Rightarrow> node list" where
  "successors n st =
     remdups
       (map snd (filter (\<lambda>e. fst e = n) edges)
        @ (if n = ParseCode
           then (case map_of conditional_edges (should_continue st) of
                   Some n' \<Rightarrow> [n']
                 | None \<Rightarrow> [])
           else []))"

fun exec_node :: "'db collaborators \<Rightarrow> node \<Rightarrow> AnalysisState \<times> 'db \<Rightarrow> (AnalysisState \<times> 'db) run" where
  "exec_node C ParseCode w = Done (parse_code C (fst w), snd w)"
| "exec_node C RouteToAgents w = Done (route_to_agents (fst w), snd w)"
| "exec_node C RunDocumenter w =
     (case run_documenter C (fst w) of
        Done st \<Rightarrow> Done (st, snd w)
      | Stuck st \<Rightarrow> Stuck (st, snd w))"
| "exec_node C CollectResults w = Done (collect_results C (fst w), snd w)"
| "exec_node C StoreResults w = Done (store_results C w)"
| "exec_node C HandleErrors w = Done (handle_errors C w)"
| "exec_node C END w = Done w"

fun rank :: "node \<Rightarrow> nat" where
  "rank ParseCode = 5"
| "rank RouteToAgents = 4"
| "rank RunDocumenter = 3"
| "rank CollectResults = 2"
| "rank StoreResults = 1"
| "rank HandleErrors = 1"
| "rank END = 0"

text \<open>
  The run of the graph from a node: the nodes that start, each with the state and the
  store it leaves. A node that never returns ends its branch. Where two nodes start after
  one, each is run on the state and the store that node left, and the branch of the first
  is listed before the branch of the second: how the library combines what two branches
  write is not in the sources.
\<close>

function run_from :: "'db collaborators \<Rightarrow> node \<Rightarrow> AnalysisState \<times> 'db
    \<Rightarrow> (node \<times> (AnalysisState \<times> 'db) run) list" where
  "run_from C n w =
     (if n = END then []
      else (case exec_node C n w of
              Stuck w' \<Rightarrow> [(n, Stuck w')]
            | Done w' \<Rightarrow>
                (n, Done w') # concat (map (\<lambda>n'. run_from C n' w') (successors n (fst w')))))"
  by pat_completeness auto
termination
proof (relation "measure (\<lambda>(C, n, w). rank n)")
  show "wf (measure (\<lambda>(C, n, w). rank n))" by simp
next
  fix C :: "'db collaborators" and n w x2 x
  assume "n \<noteq> END" and "x \<in> set (successors n (fst x2))"
  then show "((C, x, x2), C, n, w) \<in> measure (\<lambda>(C, n, w). rank n)"
    by (cases n)
       (auto simp: successors_def edges_def conditional_edges_def should_continue_def
             split: if_splits)
qed

declare run_from.simps [simp del]

text \<open>What a run ends in: the last configuration, or the initial one for an empty run.\<close>

definition final :: "'w \<Rightarrow> (node \<times> 'w run) list \<Rightarrow> 'w run" where
  "final w tr = (case tr of [] \<Rightarrow> Done w | _ \<Rightarrow> snd (last tr))"

section \<open>The orchestrator (orchestrator/graph.py, AgentOrchestrator)\<close>

text \<open>
  The orchestrator holds the in-process map of the sessions, the cache client and the
  store. It awaits every call of the cache client. The client's \<open>set\<close>, \<open>get\<close> and
  \<open>delete\<close> (utils/redis\_client.py) are plain methods: the call is made, with its
  effect on the client's storage, and the \<open>await\<close> of the value it returned raises
  \<open>TypeError\<close>, with this text.
\<close>

definition not_awaitable :: "pyval \<Rightarrow> string" where
  "not_awaitable v =
     ''object '' @ type_name v @ '' can'' @ [CHR 0x27] @ ''t be used in '' @ [CHR 0x27]
     @ ''await'' @ [CHR 0x27] @ '' expression''"

record 'db AgentOrchestrator =
  active_sessions :: "AnalysisState dict"
  redis_client :: RedisClient
  db_manager :: 'db

definition session_key :: "string \<Rightarrow> string" where
  "session_key sid = ''session:'' @ sid"

text \<open>The state \<open>run_analysis\<close> builds: \<open>agents_config or {}\<close> in the metadata.\<close>

definition initial_state :: "'db collaborators \<Rightarrow> string \<Rightarrow> int \<Rightarrow> string dict list
    \<Rightarrow> pyval \<Rightarrow> pyval \<Rightarrow> pyval \<Rightarrow> AnalysisState" where
  "initial_state C sid pid fs agents_config mdl tn =
     \<lparr>session_id = sid, project_id = pid, files = fs, parsed_elements = [],
      agent_outputs = [], current_agent = None, errors = [], progress = [],
      metadata =
        [(''model'', mdl), (''tone'', tn),
         (''agents_config'', if truthy agents_config then agents_config else PDict []),
         (''started_at'', PStr (started_at C))]\<rparr>"





text \<open>
  \<open>get_session_status\<close>, with the tiers it consults in the order it consults them.
  With an entry in the in-process map it returns the view of the registered state.
  Without one it calls the cache's \<open>get\<close>, and the \<open>await\<close> of the value that \<open>get\<close>
  returned raises \<open>TypeError\<close>: the truth test of the cached value, the cached view and
  the lookup in the store, which follow, are never reached.
\<close>

datatype tier = Memory | Cache | Store

definition get_session_status :: "json \<Rightarrow> 'db AgentOrchestrator \<Rightarrow> string
    \<Rightarrow> tier list \<times> pyval outcome" where
  "get_session_status J orch sid =
     (case dict_get (active_sessions orch) sid of
        Some state \<Rightarrow>
          ([Memory],
           Returned (PDict
             [(''session_id'', PStr sid), (''status'', PStr ''in_progress''),
              (''current_agent'', opt_str_val (current_agent state)),
              (''progress'', PDict (progress state)),
              (''errors'', PList (map PStr (errors state)))]))
      | None \<Rightarrow>
          ([Memory, Cache],
           Raised (not_awaitable (get_redis J (redis_client orch) (session_key sid)))))"

text \<open>The status marker of a stage in \<open>progress\<close>, and whether a stage has an output.\<close>

definition marker :: "AnalysisState \<Rightarrow> string \<Rightarrow> pyval option" where
  "marker st name =
     (case dict_get (progress st) name of
        Some (PDict d) \<Rightarrow> dict_get d ''status''
      | _ \<Rightarrow> None)"

definition has_output :: "AnalysisState \<Rightarrow> string \<Rightarrow> bool" where
  "has_output st name = dict_has (agent_outputs st) name"

text \<open>
  The messages the loop of \<open>_parse_code\<close> appends for a list of files that all have a
  \<open>path\<close>: one \<open>Parse error in <path>\<close> for each file whose iteration raises.
\<close>

definition parse_warning :: "'db collaborators \<Rightarrow> string dict \<Rightarrow> string list" where
  "parse_warning C file_data =
     (case parse_elements_of C file_data [] of
        Inr pe \<Rightarrow> []
      | Inl e \<Rightarrow> [''Parse error in '' @ get_path file_data @ '': '' @ e])"

definition parse_warnings :: "'db collaborators \<Rightarrow> string dict list \<Rightarrow> string list" where
  "parse_warnings C fs = concat (map (parse_warning C) fs)"

text \<open>
  What a node leaves alone: the identifiers, the files, the metadata, and every entry of
  \<open>progress\<close> and \<open>agent_outputs\<close> under a key that is not one of the node's own.
\<close>

definition frame :: "string list \<Rightarrow> AnalysisState \<Rightarrow> AnalysisState \<Rightarrow> bool" where
  "frame keys st st' =
     (session_id st' = session_id st \<and> project_id st' = project_id st \<and> files st' = files st
      \<and> metadata st' = metadata st
      \<and> (\<forall>k. k \<notin> set keys \<longrightarrow>
            dict_get (progress st') k = dict_get (progress st) k
          \<and> dict_get (agent_outputs st') k = dict_get (agent_outputs st) k))"

text \<open>
  The configuration a node left, and the session states a run of the workflow goes
  through: the state it starts from and the state each executed node leaves, the one a
  node is stuck in included.
\<close>

definition reached :: "'w run \<Rightarrow> 'w" where
  "reached r = (case r of Done w \<Rightarrow> w | Stuck w \<Rightarrow> w)"

definition returned :: "'w run \<Rightarrow> bool" where
  "returned r = (case r of Done w \<Rightarrow> True | Stuck w \<Rightarrow> False)"

definition session_states :: "'db collaborators \<Rightarrow> AnalysisState \<Rightarrow> 'db \<Rightarrow> AnalysisState list" where
  "session_states C st db =
     st # map (\<lambda>step. fst (reached (snd step))) (run_from C entry_point (st, db))"

text \<open>
  For the documenter: its output is present exactly when its marker is \<open>completed\<close>;
  and, before the documenter has run, neither is the case.
\<close>

definition settled :: "AnalysisState \<Rightarrow> bool" where
  "settled st = (has_output st ''documenter'' = (marker st ''documenter'' = Some (PStr ''completed'')))"

definition untouched :: "AnalysisState \<Rightarrow> bool" where
  "untouched st = (\<not> has_output st ''documenter'' \<and> marker st ''documenter'' \<noteq> Some (PStr ''completed''))"

section \<open>The standard library: str, repr and json\<close>

text \<open>
  A character of a Python string is modelled by a character of code below 256. The text
  of a float (\<open>float.__repr__\<close>) and the float a text denotes are not modelled: they are
  two unspecified functions. The decimal text of an integer:
\<close>

definition float_repr :: "real \<Rightarrow> string" where
  "float_repr = undefined"

definition float_of_text :: "string \<Rightarrow> real" where
  "float_of_text = undefined"

fun digits :: "nat \<Rightarrow> string" where
  "digits n =
     (if n < 10 then [''0123456789'' ! n]
      else digits (n div 10) @ [''0123456789'' ! (n mod 10)])"

declare digits.simps [simp del]

definition str_int :: "int \<Rightarrow> string" where
  "str_int i = (if i < 0 then CHR ''-'' # digits (nat (- i)) else digits (nat i))"

definition hex2 :: "nat \<Rightarrow> string" where
  "hex2 n = [''0123456789abcdef'' ! (n div 16 mod 16), ''0123456789abcdef'' ! (n mod 16)]"

text \<open>
  \<open>repr\<close> of a string: between single quotes, or between double quotes when the string
  has a single quote and no double quote; the backslash, the quote in use, and the
  characters that are not printable are escaped.
\<close>

definition printable :: "char \<Rightarrow> bool" where
  "printable c =
     (let n = (of_char c :: nat)
      in (32 \<le> n \<and> n < 127) \<or> (161 \<le> n \<and> n \<noteq> 173))"

definition repr_char :: "char \<Rightarrow> char \<Rightarrow> string" where
  "repr_char q c =
     (if c = q \<or> c = CHR 0x5C then [CHR 0x5C, c]
      else if c = CHR 0x09 then [CHR 0x5C, CHR ''t'']
      else if c = CHR 0x0A then [CHR 0x5C, CHR ''n'']
      else if c = CHR 0x0D then [CHR 0x5C, CHR ''r'']
      else if printable c then [c]
      else [CHR 0x5C, CHR ''x''] @ hex2 (of_char c))"

definition repr_str :: "string \<Rightarrow> string" where
  "repr_str s =
     (let q = (if CHR 0x27 \<in> set s \<and> CHR 0x22 \<notin> set s then CHR 0x22 else CHR 0x27)
      in q # concat (map (repr_char q) s) @ [q])"

primrec repr :: "pyval \<Rightarrow> string" where
  "repr PNone = ''None''"
| "repr (PBool b) = (if b then ''True'' else ''False'')"
| "repr (PInt i) = str_int i"
| "repr (PFloat x) = float_repr x"
| "repr (PStr s) = repr_str s"
| "repr (PList xs) = ''['' @ join '', '' (map repr xs) @ '']''"
| "repr (PTuple xs) =
     ''('' @ join '', '' (map repr xs) @ (if length xs = 1 then '','' else []) @ '')''"
| "repr (PDict d) =
     ''{'' @ join '', '' (map (\<lambda>kv. repr_str (fst kv) @ '': '' @ snd kv) (map (map_prod id repr) d))
     @ ''}''"

text \<open>\<open>str(value)\<close>: the string itself, and the \<open>repr\<close> of any other value.\<close>

definition py_str :: "pyval \<Rightarrow> string" where
  "py_str v = (case v of PStr s \<Rightarrow> s | _ \<Rightarrow> repr v)"

text \<open>
  \<open>json.dumps(value)\<close> with its defaults: \<open>", "\<close> and \<open>": "\<close> as separators, every
  character outside the printable ASCII range escaped, a tuple written as a list. On the
  values of type \<open>pyval\<close> it never raises.
\<close>

definition json_escape :: "char \<Rightarrow> string" where
  "json_escape c =
     (if c = CHR 0x22 \<or> c = CHR 0x5C then [CHR 0x5C, c]
      else if c = CHR 0x0A then [CHR 0x5C, CHR ''n'']
      else if c = CHR 0x0D then [CHR 0x5C, CHR ''r'']
      else if c = CHR 0x09 then [CHR 0x5C, CHR ''t'']
      else if c = CHR 0x08 then [CHR 0x5C, CHR ''b'']
      else if c = CHR 0x0C then [CHR 0x5C, CHR ''f'']
      else if (of_char c :: nat) < 32 \<or> (of_char c :: nat) > 126
      then [CHR 0x5C, CHR ''u'', CHR ''0'', CHR ''0''] @ hex2 (of_char c)
      else [c])"

definition json_quote :: "string \<Rightarrow> string" where
  "json_quote s = CHR 0x22 # concat (map json_escape s) @ [CHR 0x22]"

primrec json_text :: "pyval \<Rightarrow> string" where
  "json_text PNone = ''null''"
| "json_text (PBool b) = (if b then ''true'' else ''false'')"
| "json_text (PInt i) = str_int i"
| "json_text (PFloat x) = float_repr x"
| "json_text (PStr s) = json_quote s"
| "json_text (PList xs) = ''['' @ join '', '' (map json_text xs) @ '']''"
| "json_text (PTuple xs) = ''['' @ join '', '' (map json_text xs) @ '']''"
| "json_text (PDict d) =
     ''{'' @ join '', '' (map (\<lambda>kv. json_quote (fst kv) @ '': '' @ snd kv)
                            (map (map_prod id json_text) d))
     @ ''}''"

text \<open>
  \<open>json.loads(text)\<close>. White space is blank, tab, line feed and carriage return.
\<close>

definition is_ws :: "char \<Rightarrow> bool" where
  "is_ws c = (c = CHR 0x20 \<or> c = CHR 0x09 \<or> c = CHR 0x0A \<or> c = CHR 0x0D)"

definition skip_ws :: "string \<Rightarrow> string" where
  "skip_ws s = dropWhile is_ws s"

definition is_digit :: "char \<Rightarrow> bool" where
  "is_digit c = (48 \<le> (of_char c :: nat) \<and> (of_char c :: nat) \<le> 57)"

definition digit_val :: "char \<Rightarrow> nat" where
  "digit_val c = of_char c - 48"

definition nat_of_digits :: "string \<Rightarrow> nat" where
  "nat_of_digits ds = foldl (\<lambda>a c. 10 * a + digit_val c) 0 ds"

definition hex_val :: "char \<Rightarrow> nat option" where
  "hex_val c =
     (let n = (of_char c :: nat)
      in if 48 \<le> n \<and> n \<le> 57 then Some (n - 48)
         else if 97 \<le> n \<and> n \<le> 102 then Some (n - 87)
         else if 65 \<le> n \<and> n \<le> 70 then Some (n - 55)
         else None)"

definition unescape :: "char \<Rightarrow> char option" where
  "unescape e =
     (if e = CHR 0x22 \<or> e = CHR 0x5C \<or> e = CHR ''/'' then Some e
      else if e = CHR ''b'' then Some (CHR 0x08)
      else if e = CHR ''f'' then Some (CHR 0x0C)
      else if e = CHR ''n'' then Some (CHR 0x0A)
      else if e = CHR ''r'' then Some (CHR 0x0D)
      else if e = CHR ''t'' then Some (CHR 0x09)
      else None)"

text \<open>
  The characters of a string after its opening quote, up to the closing quote: the
  string and the text that follows. A control character, an unknown escape and a missing
  closing quote are errors. A \<open>\u\<close> escape of a code from 256 on has no character in
  this model of strings, and is refused here.
\<close>

fun scan_string :: "string \<Rightarrow> (string \<times> string) option" where
  "scan_string [] = None"
| "scan_string (c # cs) =
     (if c = CHR 0x22 then Some ([], cs)
      else if c = CHR 0x5C then
        (case cs of
           [] \<Rightarrow> None
         | e # cs' \<Rightarrow>
             if e = CHR ''u'' then
               (case cs' of
                  h1 # h2 # h3 # h4 # rest \<Rightarrow>
                    (case (hex_val h1, hex_val h2, hex_val h3, hex_val h4) of
                       (Some a, Some b, Some c', Some d) \<Rightarrow>
                         if a = 0 \<and> b = 0
                         then map_option (apfst ((#) (char_of (16 * c' + d)))) (scan_string rest)
                         else None
                     | _ \<Rightarrow> None)
                | _ \<Rightarrow> None)
             else
               (case unescape e of
                  None \<Rightarrow> None
                | Some ch \<Rightarrow> map_option (apfst ((#) ch)) (scan_string cs')))
      else if (of_char c :: nat) < 32 then None
      else map_option (apfst ((#) c)) (scan_string cs))"

text \<open>
  A number: an optional minus sign, \<open>0\<close> or digits that do not begin with \<open>0\<close>, an
  optional fraction and an optional exponent. With a fraction or an exponent it is a
  float, otherwise an integer.
\<close>

definition scan_int_part :: "string \<Rightarrow> (string \<times> string) option" where
  "scan_int_part s =
     (case s of
        [] \<Rightarrow> None
      | c # cs \<Rightarrow>
          if c = CHR ''0'' then Some ([c], cs)
          else if is_digit c then Some (takeWhile is_digit s, dropWhile is_digit s)
          else None)"

definition scan_frac :: "string \<Rightarrow> string \<times> string" where
  "scan_frac s =
     (case s of
        c # d # cs \<Rightarrow>
          if c = CHR ''.'' \<and> is_digit d
          then (c # takeWhile is_digit (d # cs), dropWhile is_digit (d # cs))
          else ([], s)
      | _ \<Rightarrow> ([], s))"

definition scan_exp :: "string \<Rightarrow> string \<times> string" where
  "scan_exp s =
     (case s of
        c # cs \<Rightarrow>
          if c = CHR ''e'' \<or> c = CHR ''E'' then
            (case cs of
               d # ds \<Rightarrow>
                 if is_digit d then (c # takeWhile is_digit cs, dropWhile is_digit cs)
                 else if (d = CHR ''+'' \<or> d = CHR ''-'') \<and> ds \<noteq> [] \<and> is_digit (hd ds)
                 then (c # d # takeWhile is_digit ds, dropWhile is_digit ds)
                 else ([], s)
             | [] \<Rightarrow> ([], s))
          else ([], s)
      | [] \<Rightarrow> ([], s))"

definition scan_number :: "string \<Rightarrow> (pyval \<times> string) option" where
  "scan_number s =
     (let negative = (s \<noteq> [] \<and> hd s = CHR ''-'');
          body = (if negative then tl s else s)
      in case scan_int_part body of
           None \<Rightarrow> None
         | Some (ds, r1) \<Rightarrow>
             (let (frac, r2) = scan_frac r1;
                  (ex, r3) = scan_exp r2
              in if frac = [] \<and> ex = []
                 then Some (PInt (if negative then - int (nat_of_digits ds) else int (nat_of_digits ds)), r1)
                 else Some (PFloat (float_of_text ((if negative then ''-'' else []) @ ds @ frac @ ex)), r3)))"

definition strip_prefix :: "string \<Rightarrow> string \<Rightarrow> string option" where
  "strip_prefix p s = (if take (length p) s = p then Some (drop (length p) s) else None)"

text \<open>
  A value at the head of the text, with the text that follows it. The first argument
  bounds the number of nested calls; \<open>json_loads\<close> gives it a bound that the length of
  the text cannot exhaust. The pairs of an object are put into a dictionary one after the
  other, so of two pairs with one key the second one's value stays.
\<close>

fun parse_value :: "nat \<Rightarrow> string \<Rightarrow> (pyval \<times> string) option"
  and parse_elements :: "nat \<Rightarrow> string \<Rightarrow> pyval list \<Rightarrow> (pyval \<times> string) option"
  and parse_members :: "nat \<Rightarrow> string \<Rightarrow> pyval dict \<Rightarrow> (pyval \<times> string) option" where
  "parse_value 0 s = None"
| "parse_value (Suc n) s =
     (case s of
        [] \<Rightarrow> None
      | c # cs \<Rightarrow>
          if c = CHR 0x22 then map_option (apfst PStr) (scan_string cs)
          else if c = CHR ''{'' then
            (case skip_ws cs of
               [] \<Rightarrow> None
             | c' # r \<Rightarrow> if c' = CHR ''}'' then Some (PDict [], r) else parse_members n (c' # r) [])
          else if c = CHR ''['' then
            (case skip_ws cs of
               [] \<Rightarrow> None
             | c' # r \<Rightarrow> if c' = CHR '']'' then Some (PList [], r) else parse_elements n (c' # r) [])
          else if strip_prefix ''null'' s \<noteq> None then Some (PNone, drop 4 s)
          else if strip_prefix ''true'' s \<noteq> None then Some (PBool True, drop 4 s)
          else if strip_prefix ''false'' s \<noteq> None then Some (PBool False, drop 5 s)
          else
            (case scan_number s of
               Some found \<Rightarrow> Some found
             | None \<Rightarrow>
                 if strip_prefix ''NaN'' s \<noteq> None then Some (PFloat (float_of_text ''NaN''), drop 3 s)
                 else if strip_prefix ''Infinity'' s \<noteq> None
                 then Some (PFloat (float_of_text ''Infinity''), drop 8 s)
                 else if strip_prefix ''-Infinity'' s \<noteq> None
                 then Some (PFloat (float_of_text ''-Infinity''), drop 9 s)
                 else None))"
| "parse_elements 0 s acc = None"
| "parse_elements (Suc n) s acc =
     (case parse_value n s of
        None \<Rightarrow> None
      | Some (v, r) \<Rightarrow>
          (case skip_ws r of
             [] \<Rightarrow> None
           | c # r' \<Rightarrow>
               if c = CHR '']'' then Some (PList (acc @ [v]), r')
               else if c = CHR '','' then parse_elements n (skip_ws r') (acc @ [v])
               else None))"
| "parse_members 0 s acc = None"
| "parse_members (Suc n) s acc =
     (case s of
        [] \<Rightarrow> None
      | q # s' \<Rightarrow>
          if q \<noteq> CHR 0x22 then None
          else
            (case scan_string s' of
               None \<Rightarrow> None
             | Some (k, r) \<Rightarrow>
                 (case skip_ws r of
                    [] \<Rightarrow> None
                  | c # r' \<Rightarrow>
                      if c \<noteq> CHR '':'' then None
                      else
                        (case parse_value n (skip_ws r') of
                           None \<Rightarrow> None
                         | Some (v, r'') \<Rightarrow>
                             (case skip_ws r'' of
                                [] \<Rightarrow> None
                              | c' # r''' \<Rightarrow>
                                  if c' = CHR ''}'' then Some (PDict (dict_set acc k v), r''')
                                  else if c' = CHR '','' then parse_members n (skip_ws r''') (dict_set acc k v)
                                  else None)))))"

definition json_loads :: "string \<Rightarrow> pyval option" where
  "json_loads s =
     (case parse_value (2 * length s + 2) (skip_ws s) of
        None \<Rightarrow> None
      | Some (v, r) \<Rightarrow> if skip_ws r = [] then Some v else None)"

definition py_json :: json where
  "py_json = \<lparr>dumps = (\<lambda>v. Some (json_text v)), loads = json_loads, str_of = py_str\<rparr>"

section \<open>Sample collaborators\<close>

text \<open>
  A store that records the calls it receives, a parser that refuses an empty file, and
  a documenter that returns a report; no call of theirs ever raises otherwise.
\<close>

record sample_db =
  statuses :: "(string \<times> string \<times> string option) list"
  outputs :: "(int \<times> string \<times> string \<times> pyval) list"

definition sample_parse :: "string \<Rightarrow> string \<Rightarrow> string + pyval" where
  "sample_parse file_content file_path =
     (if file_content = [] then Inl ''empty file''
      else Inr (PDict [(''content'', PStr file_content)]))"

definition sample_session :: "sample_db \<Rightarrow> string \<Rightarrow> pyval outcome" where
  "sample_session db sid =
     (case filter (\<lambda>r. fst r = sid) (statuses db) of
        [] \<Rightarrow> Returned PNone
      | r # rs \<Rightarrow>
          Returned (PDict [(''session_id'', PStr sid),
                           (''status'', PStr (fst (snd (last (r # rs)))))]))"

definition sample_collaborators :: "sample_db collaborators" where
  "sample_collaborators =
     \<lparr>parse_php_file = sample_parse,
      parse_js_file = sample_parse,
      analyze = (\<lambda>pe pid mdl tn. Returned (PDict [(''success'', PBool True)])),
      update_session_status =
        (\<lambda>db sid status msg. Inr (db\<lparr>statuses := statuses db @ [(sid, status, msg)]\<rparr>)),
      store_agent_output =
        (\<lambda>db pid agent_type output_type output.
           Inr (db\<lparr>outputs := outputs db @ [(pid, agent_type, output_type, output)]\<rparr>)),
      get_analysis_session = sample_session,
      started_at = ''2024-01-01T00:00:00'',
      collected_at = ''2024-01-01T00:00:09''\<rparr>"

definition empty_orchestrator :: "sample_db AgentOrchestrator" where
  "empty_orchestrator =
     \<lparr>active_sessions = [],
      redis_client = \<lparr>connection_string = [], storage = []\<rparr>,
      db_manager = \<lparr>statuses = [], outputs = []\<rparr>\<rparr>"

text \<open>
  A session of one file that parses, as \<open>run_analysis\<close> builds it, and the sample
  collaborators with a documenter that raises.
\<close>

definition failing_documenter :: "sample_db collaborators" where
  "failing_documenter = sample_collaborators\<lparr>analyze := (\<lambda>pe pid mdl tn. Raised ''boom'')\<rparr>"

definition sample_state :: AnalysisState where
  "sample_state =
     initial_state sample_collaborators ''s1'' 1 [[(''path'', ''b.php''), (''content'', ''<?php'')]]
       PNone (PStr ''llama-3-70b'') (PStr ''professional'')"


definition stored_only :: "sample_db AgentOrchestrator" where
  "stored_only =
     empty_orchestrator\<lparr>db_manager :=
       \<lparr>statuses = [(''s1'', ''in_progress'', None), (''s1'', ''completed'', None)],
        outputs = []\<rparr>\<rparr>"

text \<open>The sample collaborators with a documenter that never returns.\<close>

definition hanging_documenter :: "sample_db collaborators" where
  "hanging_documenter = sample_collaborators\<lparr>analyze := (\<lambda>pe pid mdl tn. Hangs)\<rparr>"

text \<open>The defaults of \<open>AgentConfig\<close>, and an agent as \<open>BaseAgent.__init__\<close> leaves it.\<close>

definition default_config :: AgentConfig where
  "default_config =
     \<lparr>model = ''llama-3-70b'', temperature = 1 / 10, max_tokens = 4000,
      tone = ''professional'', system_prompt = [], tools = []\<rparr>"

definition new_agent :: "(message list \<Rightarrow> string outcome) \<Rightarrow> BaseAgent" where
  "new_agent client =
     \<lparr>config = default_config, llm = Some client, is_active = True, last_run = None,
      total_runs = 0, total_tokens = 0\<rparr>"

definition sample_methods :: agent_methods where
  "sample_methods =
     \<lparr>get_system_prompt = (\<lambda>tn. Inr (''Use a '' @ tn @ '' tone.'')),
      process_response = (\<lambda>response context. Inr (PDict [(''description'', PStr response)]))\<rparr>"

definition sample_clock :: clock where
  "sample_clock = \<lparr>time_start = 10, time_end = 12, utcnow = 7\<rparr>"

section \<open>Facts about dictionaries\<close>

lemma dict_get_set: "dict_get (dict_set d k v) k' = (if k' = k then Some v else dict_get d k')"
  by (induction d) (auto simp: dict_get_def)

lemma dict_has_set: "dict_has (dict_set d k v) k' = (k' = k \<or> dict_has d k')"
  by (induction d) (auto simp: dict_has_def split: if_splits)

lemma dict_has_get: "dict_has d k = (dict_get d k \<noteq> None)"
  by (simp add: dict_has_def dict_get_def)

lemma dict_get_del: "dict_get (dict_del d k) k' = (if k' = k then None else dict_get d k')"
  by (induction d) (auto simp: dict_get_def dict_del_def)

lemma dict_has_del: "dict_has (dict_del d k) k' = (k' \<noteq> k \<and> dict_has d k')"
  by (simp add: dict_has_get dict_get_del)


lemma dict_del_absent: "\<not> dict_has d k \<Longrightarrow> dict_del d k = d"
  by (induction d) (auto simp: dict_has_def dict_del_def)

section \<open>What each node leaves alone\<close>

lemma setitem2_present:
  "dict_get d k1 = Some (PDict inner) \<Longrightarrow>
   setitem2 d k1 k2 v = Inr (dict_set d k1 (PDict (dict_set inner k2 v)))"
  by (simp add: setitem2_def)

lemma setitem2_Inr:
  assumes "setitem2 d k1 k2 v = Inr pr"
  shows "\<exists>inner. dict_get d k1 = Some (PDict inner) \<and> pr = dict_set d k1 (PDict (dict_set inner k2 v))"
  using assms by (auto simp: setitem2_def split: option.splits pyval.splits)

lemma setitem2_other:
  "setitem2 d k1 k2 v = Inr pr \<Longrightarrow> k \<noteq> k1 \<Longrightarrow> dict_get pr k = dict_get d k"
  by (auto dest!: setitem2_Inr simp: dict_get_set)

lemma frame_refl: "frame ks st st"
  by (simp add: frame_def)

lemma frame_trans: "frame ks st st' \<Longrightarrow> frame ks st' st'' \<Longrightarrow> frame ks st st''"
  by (simp add: frame_def)

lemma frame_mono: "frame ks st st' \<Longrightarrow> set ks \<subseteq> set ks' \<Longrightarrow> frame ks' st st'"
  by (auto simp: frame_def)

lemma frame_errors: "frame ks st (st'\<lparr>errors := es\<rparr>) = frame ks st st'"
  by (simp add: frame_def)

lemma frame_progress:
  assumes "setitem2 (progress st) k1 k2 v = Inr pr" and "k1 \<in> set ks"
  shows "frame ks st (st\<lparr>progress := pr\<rparr>)"
proof -
  have "dict_get pr k = dict_get (progress st) k" if "k \<notin> set ks" for k
    using assms that by (intro setitem2_other [OF assms(1)]) auto
  then show ?thesis by (simp add: frame_def)
qed

lemma parse_file_frame:
  assumes "parse_file C i f st pe = (exc, st', pe')"
  shows "frame [''parsing''] st st' \<and> errors st' = errors st"
  using assms
  by (auto simp: parse_file_def frame_refl frame_progress split: sum.splits)

lemma parse_files_frame:
  "parse_files C i fs st pe = (exc, st', pe') \<Longrightarrow> frame [''parsing''] st st'"
proof (induction fs arbitrary: i st pe)
  case Nil
  then show ?case by (simp add: frame_refl)
next
  case (Cons f fs)
  obtain exc1 st1 pe1 where pf: "parse_file C i f st pe = (exc1, st1, pe1)"
    by (cases "parse_file C i f st pe") auto
  have f1: "frame [''parsing''] st st1" using parse_file_frame [OF pf] by simp
  show ?case
  proof (cases exc1)
    case None
    with Cons.prems pf have "parse_files C (Suc i) fs st1 pe1 = (exc, st', pe')" by simp
    from Cons.IH [OF this] f1 show ?thesis by (rule frame_trans [rotated])
  next
    case (Some e)
    show ?thesis
    proof (cases "dict_get f ''path''")
      case None
      with Cons.prems pf Some have "st' = st1" by simp
      with f1 show ?thesis by simp
    next
      case (Some p)
      with Cons.prems pf \<open>exc1 = Some e\<close>
      have "parse_files C (Suc i) fs (st1\<lparr>errors := errors st1 @ [''Parse error in '' @ p @ '': '' @ e]\<rparr>) pe1
              = (exc, st', pe')" by simp
      from Cons.IH [OF this] have "frame [''parsing''] (st1\<lparr>errors := errors st1 @ [''Parse error in '' @ p @ '': '' @ e]\<rparr>) st'" .
      then have "frame [''parsing''] st1 st'" by (simp add: frame_def)
      with f1 show ?thesis by (rule frame_trans)
    qed
  qed
qed

lemma frame_start:
  "k \<in> set ks \<Longrightarrow> frame ks st (st\<lparr>current_agent := a, progress := dict_set (progress st) k v\<rparr>)"
  by (auto simp: frame_def dict_get_set)

lemma parse_code_frame: "frame [''parsing''] st (parse_code C st)"
proof -
  let ?st1 = "st\<lparr>current_agent := Some ''parser'',
                   progress := dict_set (progress st) ''parsing''
                     (PDict [(''status'', PStr ''started''), (''files_processed'', PInt 0)])\<rparr>"
  have a: "frame [''parsing''] st ?st1" by (rule frame_start) simp
  obtain exc st2 pe where pf: "parse_files C 0 (files ?st1) ?st1 [] = (exc, st2, pe)"
    by (cases "parse_files C 0 (files ?st1) ?st1 []") auto
  have b: "frame [''parsing''] ?st1 st2" by (rule parse_files_frame [OF pf])
  have c: "frame [''parsing''] st2 (parse_code C st)"
    using pf
    by (auto simp: parse_code_def Let_def frame_def setitem2_other split: option.splits sum.splits)
  from a b c show ?thesis by (blast intro: frame_trans)
qed

lemma route_frame: "frame [''routing''] st (route_to_agents st)"
  by (auto simp: route_to_agents_def Let_def frame_def dict_get_set
      dest!: setitem2_Inr split: pyval.splits sum.splits)

lemma collect_frame: "frame [''collection'', ''aggregated''] st (collect_results C st)"
  by (auto simp: collect_results_def Let_def frame_def dict_get_set
      dest!: setitem2_Inr split: sum.splits)

lemma store_frame: "frame [''storage''] (fst w) (fst (store_results C w))"
  by (auto simp: store_results_def Let_def frame_def dict_get_set
      dest!: setitem2_Inr split: sum.splits prod.splits option.splits)

lemma handle_frame: "frame [''error_handling''] (fst w) (fst (handle_errors C w))"
  by (auto simp: handle_errors_def Let_def frame_def dict_get_set
      dest!: setitem2_Inr split: sum.splits)

section \<open>The run of the graph, node by node\<close>

lemma run_from_END: "run_from C END w = []"
  by (subst run_from.simps) simp

lemma successors_StoreResults: "successors StoreResults st = [END]"
  by (simp add: successors_def edges_def)

lemma successors_HandleErrors: "successors HandleErrors st = [END]"
  by (simp add: successors_def edges_def)

lemma successors_CollectResults: "successors CollectResults st = [StoreResults]"
  by (simp add: successors_def edges_def)

lemma successors_RunDocumenter: "successors RunDocumenter st = [CollectResults]"
  by (simp add: successors_def edges_def)

lemma successors_RouteToAgents: "successors RouteToAgents st = [RunDocumenter]"
  by (simp add: successors_def edges_def)

lemma successors_ParseCode:
  "successors ParseCode st = (if errors st = [] then [RouteToAgents] else [RouteToAgents, HandleErrors])"
  by (simp add: successors_def edges_def conditional_edges_def should_continue_def)

lemma run_from_StoreResults:
  "run_from C StoreResults w = [(StoreResults, Done (store_results C w))]"
  by (subst run_from.simps) (simp add: successors_StoreResults run_from_END)

lemma run_from_HandleErrors:
  "run_from C HandleErrors w = [(HandleErrors, Done (handle_errors C w))]"
  by (subst run_from.simps) (simp add: successors_HandleErrors run_from_END)

lemma run_from_CollectResults:
  "run_from C CollectResults w =
     (CollectResults, Done (collect_results C (fst w), snd w))
     # run_from C StoreResults (collect_results C (fst w), snd w)"
  by (subst run_from.simps) (simp add: successors_CollectResults)

lemma run_from_RunDocumenter:
  "run_from C RunDocumenter w =
     (case run_documenter C (fst w) of
        Stuck st \<Rightarrow> [(RunDocumenter, Stuck (st, snd w))]
      | Done st \<Rightarrow> (RunDocumenter, Done (st, snd w)) # run_from C CollectResults (st, snd w))"
  by (subst run_from.simps) (simp add: successors_RunDocumenter split: run.splits)

lemma run_from_RouteToAgents:
  "run_from C RouteToAgents w =
     (RouteToAgents, Done (route_to_agents (fst w), snd w))
     # run_from C RunDocumenter (route_to_agents (fst w), snd w)"
  by (subst run_from.simps) (simp add: successors_RouteToAgents)

lemma run_from_ParseCode:
  "run_from C ParseCode w =
     (ParseCode, Done (parse_code C (fst w), snd w))
     # run_from C RouteToAgents (parse_code C (fst w), snd w)
     @ (if errors (parse_code C (fst w)) = [] then []
        else run_from C HandleErrors (parse_code C (fst w), snd w))"
  by (subst run_from.simps) (simp add: successors_ParseCode)

lemma frame_keeps:
  assumes "frame ks st st'" and "k \<notin> set ks"
  shows "has_output st' k = has_output st k" and "marker st' k = marker st k"
  using assms by (simp_all add: frame_def has_output_def marker_def dict_has_get)

lemma untouched_settled: "untouched st \<Longrightarrow> settled st"
  by (simp add: untouched_def settled_def)

lemma frame_untouched: "frame ks st st' \<Longrightarrow> ''documenter'' \<notin> set ks \<Longrightarrow> untouched st \<Longrightarrow> untouched st'"
  by (simp add: untouched_def frame_keeps)

lemma frame_settled: "frame ks st st' \<Longrightarrow> ''documenter'' \<notin> set ks \<Longrightarrow> settled st \<Longrightarrow> settled st'"
  by (simp add: settled_def frame_keeps)

lemma setitem2_started:
  "setitem2 (dict_set pr k started) k ''status'' v = Inr (dict_set pr k (PDict [(''status'', v)]))"
proof -
  have "dict_set (dict_set pr k started) k x = dict_set pr k x" for x
    by (induction pr) auto
  then show ?thesis
    by (simp add: setitem2_present [where inner = "[(''status'', PStr ''started'')]"]
        dict_get_set started_def)
qed

lemma run_documenter_eq:
  "run_documenter C st =
     (case documenter_switch st of
        Inl e \<Rightarrow> Done (st\<lparr>errors := errors st @ [''Documenter agent failed: '' @ e]\<rparr>)
      | Inr switch \<Rightarrow>
          if \<not> truthy switch then Done st
          else
            (case analyze C (parsed_elements st) (project_id st)
                    (get_default (metadata st) ''model'' PNone)
                    (get_default (metadata st) ''tone'' PNone) of
               Hangs \<Rightarrow>
                 Stuck (st\<lparr>current_agent := Some ''documenter'',
                            progress := dict_set (progress st) ''documenter'' started\<rparr>)
             | Raised e \<Rightarrow>
                 Done (st\<lparr>current_agent := Some ''documenter'',
                           progress := dict_set (progress st) ''documenter'' started,
                           errors := errors st @ [''Documenter agent failed: '' @ e]\<rparr>)
             | Returned results \<Rightarrow>
                 Done (st\<lparr>current_agent := Some ''documenter'',
                           agent_outputs := dict_set (agent_outputs st) ''documenter'' results,
                           progress := dict_set (progress st) ''documenter''
                             (PDict [(''status'', PStr ''completed'')])\<rparr>)))"
  by (simp add: run_documenter_def Let_def setitem2_started
      split: sum.splits outcome.splits)

lemma dict_get_status: "dict_get [(''status'', v)] ''status'' = Some v"
  by (simp add: dict_get_def)

lemma marker_set:
  "marker (st\<lparr>progress := dict_set pr k (PDict d)\<rparr>) k = dict_get d ''status''"
  by (simp add: marker_def dict_get_set)

lemma run_documenter_settled:
  assumes "untouched st"
  shows "settled (reached (run_documenter C st))"
proof (cases "documenter_switch st")
  case (Inl e)
  with assms show ?thesis
    by (simp add: run_documenter_eq reached_def settled_def untouched_def has_output_def marker_def)
next
  case (Inr sw)
  show ?thesis
  proof (cases "truthy sw")
    case False
    with Inr assms show ?thesis
      by (simp add: run_documenter_eq reached_def untouched_settled)
  next
    case True
    show ?thesis
    proof (cases "analyze C (parsed_elements st) (project_id st)
                    (get_default (metadata st) ''model'' PNone)
                    (get_default (metadata st) ''tone'' PNone)")
      case (Returned r)
      with Inr True show ?thesis
        by (simp add: run_documenter_eq reached_def settled_def has_output_def dict_has_set
            marker_def dict_get_set dict_get_status)
    next
      case (Raised e)
      with Inr True assms show ?thesis
        by (simp add: run_documenter_eq reached_def settled_def untouched_def has_output_def
            marker_def dict_get_set started_def dict_get_status)
    next
      case Hangs
      with Inr True assms show ?thesis
        by (simp add: run_documenter_eq reached_def settled_def untouched_def has_output_def
            marker_def dict_get_set started_def dict_get_status)
    qed
  qed
qed

section \<open>The shared-cache client: set, get, delete\<close>

text \<open>
  C10 (as amended). For every key and every dictionary or list value: when \<open>json.dumps\<close>
  encodes the value, \<open>set\<close> returns \<open>True\<close> and a \<open>get\<close> of the key afterwards
  returns what \<open>json.loads\<close> makes of the stored text; when \<open>json.dumps\<close> raises,
  \<open>set\<close> returns \<open>False\<close> and leaves the storage as it was. \<open>delete\<close> returns
  \<open>True\<close> for every key, after it the key is absent, and the storage is left as it was
  when the key was absent already.
\<close>

theorem redis_set_get_delete:
  assumes "isinstance_dict_list v"
  shows "(case dumps J v of
            Some s \<Rightarrow>
              fst (set_redis J c key v)
              \<and> get_redis J (snd (set_redis J c key v)) key
                  = (case loads J s of Some decoded \<Rightarrow> decoded | None \<Rightarrow> PStr s)
          | None \<Rightarrow> \<not> fst (set_redis J c key v) \<and> snd (set_redis J c key v) = c)
       \<and> fst (delete_redis c' key')
       \<and> \<not> exists_redis (snd (delete_redis c' key')) key'
       \<and> (\<not> exists_redis c' key' \<longrightarrow> snd (delete_redis c' key') = c')"
  using assms
  by (auto simp: set_redis_def get_redis_def delete_redis_def exists_redis_def dict_get_set
      dict_has_del split: option.splits)

theorem redis_set_get_delete_witness:
  "isinstance_dict_list (PDict [(''a'', PList [PInt 1, PStr ''x''])])
   \<and> fst (set_redis py_json \<lparr>connection_string = [], storage = []\<rparr> ''k''
           (PDict [(''a'', PList [PInt 1, PStr ''x''])]))
   \<and> get_redis py_json
        (snd (set_redis py_json \<lparr>connection_string = [], storage = []\<rparr> ''k''
           (PDict [(''a'', PList [PInt 1, PStr ''x''])]))) ''k''
       = PDict [(''a'', PList [PInt 1, PStr ''x''])]
   \<and> fst (delete_redis \<lparr>connection_string = [], storage = []\<rparr> ''absent'')
   \<and> \<not> exists_redis \<lparr>connection_string = [], storage = []\<rparr> ''absent''
   \<and> snd (delete_redis \<lparr>connection_string = [], storage = []\<rparr> ''absent'')
       = \<lparr>connection_string = [], storage = []\<rparr>"
proof -
  let ?v = "PDict [(''a'', PList [PInt 1, PStr ''x''])]"
  let ?c = "\<lparr>connection_string = [], storage = []\<rparr>"
  have a: "isinstance_dict_list ?v" by (simp add: isinstance_dict_list_def)
  have d: "dumps py_json ?v = Some (json_text ?v)" by (simp add: py_json_def)
  have l: "loads py_json (json_text ?v) = Some ?v" by code_simp
  have e: "\<not> exists_redis ?c ''absent''" by (simp add: exists_redis_def dict_has_def)
  from a d l e redis_set_get_delete [OF a, of py_json ?c "''k''" ?c "''absent''"]
  show ?thesis by simp
qed

text \<open>
  The claim as stated fails on a list that holds a tuple, which \<open>json.dumps\<close> encodes:
  the stored text is \<open>[[1, 2]]\<close>, and \<open>get\<close> returns a list of a list, which is not
  the value that was stored.
\<close>

theorem tuple_stored_list_returned_counterexample:
  "isinstance_dict_list (PList [PTuple [PInt 1, PInt 2]])
   \<and> fst (set_redis py_json \<lparr>connection_string = [], storage = []\<rparr> ''k''
           (PList [PTuple [PInt 1, PInt 2]]))
   \<and> storage (snd (set_redis py_json \<lparr>connection_string = [], storage = []\<rparr> ''k''
           (PList [PTuple [PInt 1, PInt 2]]))) = [(''k'', ''[[1, 2]]'')]
   \<and> get_redis py_json
        (snd (set_redis py_json \<lparr>connection_string = [], storage = []\<rparr> ''k''
           (PList [PTuple [PInt 1, PInt 2]]))) ''k''
       = PList [PList [PInt 1, PInt 2]]
   \<and> PList [PList [PInt 1, PInt 2]] \<noteq> PList [PTuple [PInt 1, PInt 2]]"
  by code_simp

section \<open>The session state: serialization\<close>

lemma those_map_inv: "(\<And>x. x \<in> set xs \<Longrightarrow> f (g x) = Some x) \<Longrightarrow> those (map f (map g xs)) = Some xs"
  by (induction xs) auto

lemma those_comp_inv: "(\<And>x. x \<in> set xs \<Longrightarrow> f (g x) = Some x) \<Longrightarrow> those (map (f \<circ> g) xs) = Some xs"
  by (induction xs) auto

lemma as_str_list_inv: "as_str_list (PList (map PStr xs)) = Some xs"
  by (simp add: as_str_list_def those_comp_inv as_str_def)

lemma as_file_inv: "as_file (file_val f) = Some f"
proof -
  have "those (map (\<lambda>kv. map_option (\<lambda>t. (fst kv, t)) (as_str (snd kv)))
          (map (\<lambda>kv. (fst kv, PStr (snd kv))) f)) = Some f"
    by (rule those_map_inv) (simp add: as_str_def)
  then show ?thesis by (simp add: as_file_def file_val_def)
qed

lemma as_files_inv: "as_files (PList (map file_val fs)) = Some fs"
  by (simp add: as_files_def those_comp_inv as_file_inv)

lemma as_opt_str_inv: "as_opt_str (opt_str_val a) = Some a"
  by (cases a) (simp_all add: as_opt_str_def opt_str_val_def)

text \<open>
  C8. For every session state, building the dictionary with \<open>to_dict\<close> and
  reconstructing a state from that dictionary gives back the state, equal in every field.
\<close>

theorem from_dict_to_dict: "from_dict (to_dict s) = Some s"
  by (simp add: from_dict_def to_dict_def dict_keys_def field_names_def dict_get_def field_or_def
      as_str_def as_int_def as_dict_def as_files_inv as_str_list_inv as_opt_str_inv)

section \<open>The stage's counters\<close>

text \<open>
  C9 (as amended). For every invocation of the LLM call that returns, the agent's
  invocation count and last-run timestamp are updated exactly when the invocation
  succeeds: a successful call adds one to the count and sets the timestamp to the clock's
  reading, a failed call leaves both as they were.
\<close>

theorem call_llm_counters:
  assumes "call_llm M K a messages context = (a', Returned r)"
  shows "if success r
         then total_runs a' = total_runs a + 1 \<and> last_run a' = Some (utcnow K)
         else total_runs a' = total_runs a \<and> last_run a' = last_run a"
  using assms
  by (auto simp: call_llm_def failure_result_def success_result_def Let_def
      split: option.splits sum.splits outcome.splits if_splits)

theorem call_llm_counters_witness:
  "call_llm sample_methods sample_clock (new_agent (\<lambda>m. Returned ''ok'')) [HumanMessage ''hi''] []
     = ((new_agent (\<lambda>m. Returned ''ok''))\<lparr>last_run := Some 7, total_runs := 1, total_tokens := 7\<rparr>,
        Returned (success_result sample_clock
          ((new_agent (\<lambda>m. Returned ''ok''))\<lparr>last_run := Some 7, total_runs := 1, total_tokens := 7\<rparr>)
          (PDict [(''description'', PStr ''ok'')]) 7))
   \<and> success (success_result sample_clock
          ((new_agent (\<lambda>m. Returned ''ok''))\<lparr>last_run := Some 7, total_runs := 1, total_tokens := 7\<rparr>)
          (PDict [(''description'', PStr ''ok'')]) 7)
   \<and> total_runs ((new_agent (\<lambda>m. Returned ''ok''))\<lparr>last_run := Some 7, total_runs := 1, total_tokens := 7\<rparr>)
       = total_runs (new_agent (\<lambda>m. Returned ''ok'')) + 1
   \<and> last_run ((new_agent (\<lambda>m. Returned ''ok''))\<lparr>last_run := Some 7, total_runs := 1, total_tokens := 7\<rparr>)
       = Some (utcnow sample_clock)"
proof -
  have run: "call_llm sample_methods sample_clock (new_agent (\<lambda>m. Returned ''ok'')) [HumanMessage ''hi''] []
     = ((new_agent (\<lambda>m. Returned ''ok''))\<lparr>last_run := Some 7, total_runs := 1, total_tokens := 7\<rparr>,
        Returned (success_result sample_clock
          ((new_agent (\<lambda>m. Returned ''ok''))\<lparr>last_run := Some 7, total_runs := 1, total_tokens := 7\<rparr>)
          (PDict [(''description'', PStr ''ok'')]) 7))"
    by (simp add: call_llm_def new_agent_def sample_methods_def sample_clock_def default_config_def
        estimate_tokens_def Let_def)
  show ?thesis
    using run call_llm_counters [OF run]
    by (simp add: success_result_def)
qed

text \<open>
  The claim as stated fails on an invocation that fails: the client raises, the call
  returns the failed result, and the count stays 0 and the timestamp unset.
\<close>

theorem call_llm_failure_counterexample:
  "snd (call_llm sample_methods sample_clock (new_agent (\<lambda>m. Raised ''timeout'')) [HumanMessage ''hi''] [])
     = Returned (failure_result sample_clock (new_agent (\<lambda>m. Raised ''timeout'')) ''timeout'')
   \<and> success (failure_result sample_clock (new_agent (\<lambda>m. Raised ''timeout'')) ''timeout'') = False
   \<and> total_runs (fst (call_llm sample_methods sample_clock (new_agent (\<lambda>m. Raised ''timeout''))
        [HumanMessage ''hi''] [])) = 0
   \<and> last_run (fst (call_llm sample_methods sample_clock (new_agent (\<lambda>m. Raised ''timeout''))
        [HumanMessage ''hi''] [])) = None"
  by (simp add: call_llm_def new_agent_def sample_methods_def failure_result_def)



section \<open>Stage outputs and progress markers\<close>

lemma settled_from_CollectResults:
  assumes "settled st" and "(n, r) \<in> set (run_from C CollectResults (st, db))"
  shows "settled (fst (reached r))"
proof -
  have c: "settled (collect_results C st)"
    by (rule frame_settled [OF collect_frame _ assms(1)]) simp
  have "settled (fst (store_results C (collect_results C st, db)))"
    using frame_settled [OF store_frame [of "(collect_results C st, db)" C]] c by simp
  with c assms(2) show ?thesis
    by (auto simp: run_from_CollectResults run_from_StoreResults reached_def)
qed

lemma settled_from_RunDocumenter:
  assumes "untouched st" and "(n, r) \<in> set (run_from C RunDocumenter (st, db))"
  shows "settled (fst (reached r))"
proof (cases "run_documenter C st")
  case (Done st')
  with run_documenter_settled [OF assms(1), of C] have s: "settled st'" by (simp add: reached_def)
  from assms(2) Done have "r = Done (st', db) \<or> (n, r) \<in> set (run_from C CollectResults (st', db))"
    by (auto simp: run_from_RunDocumenter)
  then show ?thesis
  proof
    assume "r = Done (st', db)"
    with s show ?thesis by (simp add: reached_def)
  next
    assume "(n, r) \<in> set (run_from C CollectResults (st', db))"
    with s show ?thesis by (rule settled_from_CollectResults)
  qed
next
  case (Stuck st')
  with run_documenter_settled [OF assms(1), of C] have s: "settled st'" by (simp add: reached_def)
  from assms(2) Stuck have "r = Stuck (st', db)" by (simp add: run_from_RunDocumenter)
  with s show ?thesis by (simp add: reached_def)
qed

lemma settled_from_ParseCode:
  assumes "untouched st" and "(n, r) \<in> set (run_from C ParseCode (st, db))"
  shows "settled (fst (reached r))"
proof -
  have p: "untouched (parse_code C st)"
    by (rule frame_untouched [OF parse_code_frame _ assms(1)]) simp
  have r: "untouched (route_to_agents (parse_code C st))"
    by (rule frame_untouched [OF route_frame _ p]) simp
  have h: "untouched (fst (handle_errors C (parse_code C st, db)))"
    using frame_untouched [OF handle_frame [of "(parse_code C st, db)" C]] p by simp
  from assms(2) have
    "r = Done (parse_code C st, db) \<or> r = Done (route_to_agents (parse_code C st), db)
     \<or> r = Done (handle_errors C (parse_code C st, db))
     \<or> (n, r) \<in> set (run_from C RunDocumenter (route_to_agents (parse_code C st), db))"
    by (auto simp: run_from_ParseCode run_from_RouteToAgents run_from_HandleErrors
        split: if_splits)
  then consider "r = Done (parse_code C st, db)" | "r = Done (route_to_agents (parse_code C st), db)"
    | "r = Done (handle_errors C (parse_code C st, db))"
    | "(n, r) \<in> set (run_from C RunDocumenter (route_to_agents (parse_code C st), db))"
    by blast
  then show ?thesis
  proof cases
    case 1
    with p show ?thesis by (simp add: reached_def untouched_settled)
  next
    case 2
    with r show ?thesis by (simp add: reached_def untouched_settled)
  next
    case 3
    with h show ?thesis by (simp add: reached_def untouched_settled)
  next
    case 4
    with r show ?thesis by (rule settled_from_RunDocumenter)
  qed
qed

text \<open>
  C2 (as amended). For every name under which a stage is registered, and for every
  session state that a run of the workflow goes through from the state \<open>run_analysis\<close>
  builds (that state, and the state each node leaves or is stuck in, along every branch
  of the graph), whatever the parser, the documenter and the store do: \<open>agent_outputs\<close>
  has an entry under the name if and only if the stage's progress marker is
  \<open>completed\<close>.
\<close>

theorem outputs_iff_completed:
  assumes "st \<in> set (session_states C (initial_state C sid pid fs agents_config mdl tn) db)"
    and "name \<in> set agent_names"
  shows "has_output st name = (marker st name = Some (PStr ''completed''))"
proof -
  let ?st0 = "initial_state C sid pid fs agents_config mdl tn"
  have u: "untouched ?st0"
    by (simp add: untouched_def initial_state_def has_output_def dict_has_def marker_def dict_get_def)
  from assms(1) consider "st = ?st0"
    | n r where "(n, r) \<in> set (run_from C ParseCode (?st0, db))" and "st = fst (reached r)"
    by (auto simp: session_states_def entry_point_def)
  then have "settled st"
  proof cases
    case 1
    with u show ?thesis by (simp add: untouched_settled)
  next
    case 2
    with settled_from_ParseCode [OF u 2(1)] show ?thesis by simp
  qed
  with assms(2) show ?thesis
    by (simp add: settled_def agent_names_def)
qed

theorem outputs_iff_completed_witness:
  "session_states sample_collaborators
     (initial_state sample_collaborators ''s1'' 1 [[(''path'', ''b.php''), (''content'', ''<?php'')]]
        PNone (PStr ''llama-3-70b'') (PStr ''professional'')) \<lparr>statuses = [], outputs = []\<rparr> ! 3
     \<in> set (session_states sample_collaborators
     (initial_state sample_collaborators ''s1'' 1 [[(''path'', ''b.php''), (''content'', ''<?php'')]]
        PNone (PStr ''llama-3-70b'') (PStr ''professional'')) \<lparr>statuses = [], outputs = []\<rparr>)
   \<and> ''documenter'' \<in> set agent_names
   \<and> has_output (session_states sample_collaborators
     (initial_state sample_collaborators ''s1'' 1 [[(''path'', ''b.php''), (''content'', ''<?php'')]]
        PNone (PStr ''llama-3-70b'') (PStr ''professional'')) \<lparr>statuses = [], outputs = []\<rparr> ! 3) ''documenter''
   \<and> marker (session_states sample_collaborators
     (initial_state sample_collaborators ''s1'' 1 [[(''path'', ''b.php''), (''content'', ''<?php'')]]
        PNone (PStr ''llama-3-70b'') (PStr ''professional'')) \<lparr>statuses = [], outputs = []\<rparr> ! 3) ''documenter''
       = Some (PStr ''completed'')"
proof -
  let ?tr = "session_states sample_collaborators
     (initial_state sample_collaborators ''s1'' 1 [[(''path'', ''b.php''), (''content'', ''<?php'')]]
        PNone (PStr ''llama-3-70b'') (PStr ''professional'')) \<lparr>statuses = [], outputs = []\<rparr>"
  have len: "length ?tr = 6" by code_simp
  then have m: "?tr ! 3 \<in> set ?tr" by simp
  have n: "''documenter'' \<in> set agent_names" by (simp add: agent_names_def)
  have o: "has_output (?tr ! 3) ''documenter''" by code_simp
  from m n o outputs_iff_completed [OF m n] show ?thesis by simp
qed

text \<open>
  The claim as stated, for every name, fails on the names the nodes themselves write:
  in the run of the sample session, after \<open>parse_code\<close> the marker of \<open>parsing\<close> is
  \<open>completed\<close> and there is no output under that name, and after \<open>collect_results\<close>
  there is an output under \<open>aggregated\<close> and no marker under that name.
\<close>

theorem node_keys_counterexample:
  "marker (session_states sample_collaborators sample_state \<lparr>statuses = [], outputs = []\<rparr> ! 1)
       ''parsing'' = Some (PStr ''completed'')
   \<and> has_output (session_states sample_collaborators sample_state \<lparr>statuses = [], outputs = []\<rparr> ! 1)
       ''parsing'' = False
   \<and> has_output (session_states sample_collaborators sample_state \<lparr>statuses = [], outputs = []\<rparr> ! 4)
       ''aggregated'' = True
   \<and> marker (session_states sample_collaborators sample_state \<lparr>statuses = [], outputs = []\<rparr> ! 4)
       ''aggregated'' = None
   \<and> map fst (run_from sample_collaborators entry_point
        (sample_state, \<lparr>statuses = [], outputs = []\<rparr>))
       = [ParseCode, RouteToAgents, RunDocumenter, CollectResults, StoreResults]"
  by code_simp

section \<open>From parsing to routing or to error handling\<close>

lemma parse_elements_of_Inl:
  "(parse_elements_of C f pe = Inl e) = (parse_elements_of C f [] = Inl e)"
  by (auto simp: parse_elements_of_def map_sum_def split: option.splits sum.splits)

lemma parse_warning_Inr: "parse_elements_of C f pe = Inr pe' \<Longrightarrow> parse_warning C f = []"
proof -
  assume a: "parse_elements_of C f pe = Inr pe'"
  have "\<not> isl (parse_elements_of C f [])"
  proof
    assume "isl (parse_elements_of C f [])"
    then obtain e where "parse_elements_of C f [] = Inl e" by (cases "parse_elements_of C f []") auto
    then have "parse_elements_of C f pe = Inl e" by (simp add: parse_elements_of_Inl [of C f pe])
    with a show False by simp
  qed
  then show ?thesis by (cases "parse_elements_of C f []") (auto simp: parse_warning_def)
qed

lemma parse_warning_Inl:
  "parse_elements_of C f pe = Inl e \<Longrightarrow> dict_get f ''path'' = Some p \<Longrightarrow>
   parse_warning C f = [''Parse error in '' @ p @ '': '' @ e]"
  by (simp add: parse_elements_of_Inl [of C f pe] parse_warning_def get_path_def)

lemma parse_files_warnings:
  assumes "list_all (\<lambda>f. dict_has f ''path'') fs"
    and "dict_get (progress st) ''parsing'' = Some (PDict inner)"
  shows "\<exists>st' pe' inner'. parse_files C i fs st pe = (None, st', pe')
           \<and> errors st' = errors st @ parse_warnings C fs
           \<and> dict_get (progress st') ''parsing'' = Some (PDict inner')"
  using assms
proof (induction fs arbitrary: i st pe inner)
  case Nil
  then show ?case by (simp add: parse_warnings_def)
next
  case (Cons f fs)
  from Cons.prems(1) obtain p where p: "dict_get f ''path'' = Some p"
    by (auto simp: dict_has_get)
  from Cons.prems(1) have rest: "list_all (\<lambda>f. dict_has f ''path'') fs" by simp
  show ?case
  proof (cases "parse_elements_of C f pe")
    case (Inl e)
    then have pf: "parse_file C i f st pe = (Some e, st, pe)" by (simp add: parse_file_def)
    let ?st = "st\<lparr>errors := errors st @ [''Parse error in '' @ p @ '': '' @ e]\<rparr>"
    have "dict_get (progress ?st) ''parsing'' = Some (PDict inner)" using Cons.prems(2) by simp
    from Cons.IH [OF rest this, of "Suc i" pe]
    obtain st' pe' inner' where
      "parse_files C (Suc i) fs ?st pe = (None, st', pe')"
      "errors st' = errors ?st @ parse_warnings C fs"
      "dict_get (progress st') ''parsing'' = Some (PDict inner')" by blast
    with pf p parse_warning_Inl [OF Inl p] show ?thesis
      by (simp add: parse_warnings_def)
  next
    case (Inr pe1)
    let ?pr = "dict_set (progress st) ''parsing'' (PDict (dict_set inner ''files_processed'' (PInt (int i + 1))))"
    let ?st = "st\<lparr>progress := ?pr\<rparr>"
    have pf: "parse_file C i f st pe = (None, ?st, pe1)"
      using Inr by (simp add: parse_file_def setitem2_present [OF Cons.prems(2)])
    have "dict_get (progress ?st) ''parsing'' = Some (PDict (dict_set inner ''files_processed'' (PInt (int i + 1))))"
      by (simp add: dict_get_set)
    from Cons.IH [OF rest this, of "Suc i" pe1]
    obtain st' pe' inner' where
      "parse_files C (Suc i) fs ?st pe1 = (None, st', pe')"
      "errors st' = errors ?st @ parse_warnings C fs"
      "dict_get (progress st') ''parsing'' = Some (PDict inner')" by blast
    with pf parse_warning_Inr [OF Inr] show ?thesis
      by (simp add: parse_warnings_def)
  qed
qed

text \<open>
  C1 (as amended). For every session whose files all have a \<open>path\<close>, so that parsing
  meets no fatal error: each file whose parse fails adds one \<open>Parse error in <path>\<close>
  message to the session's errors, parsing goes on with the remaining files and ends with
  its marker \<open>completed\<close>, and \<open>route_to_agents\<close> starts after it in every case. The
  guard answers \<open>continue\<close> exactly when the session's errors are empty: as soon as one
  message is recorded it answers \<open>error\<close>, and \<open>handle_errors\<close> starts as well.
\<close>

theorem parse_failures_start_error_handling:
  assumes "list_all (\<lambda>file_data. dict_has file_data ''path'') (files st)"
  shows "errors (parse_code C st) = errors st @ parse_warnings C (files st)
       \<and> marker (parse_code C st) ''parsing'' = Some (PStr ''completed'')
       \<and> should_continue (parse_code C st)
           = (if errors st @ parse_warnings C (files st) = [] then ''continue'' else ''error'')
       \<and> successors ParseCode (parse_code C st)
           = (if errors st @ parse_warnings C (files st) = [] then [RouteToAgents]
              else [RouteToAgents, HandleErrors])"
proof -
  let ?st1 = "st\<lparr>current_agent := Some ''parser'',
                   progress := dict_set (progress st) ''parsing''
                     (PDict [(''status'', PStr ''started''), (''files_processed'', PInt 0)])\<rparr>"
  have a: "list_all (\<lambda>f. dict_has f ''path'') (files ?st1)" using assms by simp
  have b: "dict_get (progress ?st1) ''parsing''
             = Some (PDict [(''status'', PStr ''started''), (''files_processed'', PInt 0)])"
    by (simp add: dict_get_set)
  from parse_files_warnings [OF a b, of C 0 "[]"]
  obtain st' pe' inner' where pf: "parse_files C 0 (files ?st1) ?st1 [] = (None, st', pe')"
    and e: "errors st' = errors ?st1 @ parse_warnings C (files ?st1)"
    and pr: "dict_get (progress st') ''parsing'' = Some (PDict inner')" by blast
  have pc: "parse_code C st
              = st'\<lparr>parsed_elements := pe',
                    progress := dict_set (progress st') ''parsing''
                      (PDict (dict_set inner' ''status'' (PStr ''completed'')))\<rparr>"
    using pf by (simp add: parse_code_def Let_def setitem2_present [OF pr])
  have e1: "errors (parse_code C st) = errors st @ parse_warnings C (files st)"
    using e by (simp add: pc)
  have m: "marker (parse_code C st) ''parsing'' = Some (PStr ''completed'')"
    by (simp add: pc marker_def dict_get_set)
  have g: "should_continue (parse_code C st)
          = (if errors (parse_code C st) = [] then ''continue'' else ''error'')"
    by (simp add: should_continue_def)
  have n: "successors ParseCode (parse_code C st)
          = (if errors (parse_code C st) = [] then [RouteToAgents]
             else [RouteToAgents, HandleErrors])"
    by (rule successors_ParseCode)
  from e1 m g n show ?thesis by simp
qed

theorem parse_failures_start_error_handling_witness:
  "list_all (\<lambda>file_data. dict_has file_data ''path'')
     (files (initial_state sample_collaborators ''s1'' 1
        [[(''path'', ''a.php''), (''content'', [])], [(''path'', ''b.php''), (''content'', ''<?php'')]]
        PNone (PStr ''llama-3-70b'') (PStr ''professional'')))
   \<and> errors (parse_code sample_collaborators (initial_state sample_collaborators ''s1'' 1
        [[(''path'', ''a.php''), (''content'', [])], [(''path'', ''b.php''), (''content'', ''<?php'')]]
        PNone (PStr ''llama-3-70b'') (PStr ''professional'')))
       = [''Parse error in a.php: empty file'']
   \<and> marker (parse_code sample_collaborators (initial_state sample_collaborators ''s1'' 1
        [[(''path'', ''a.php''), (''content'', [])], [(''path'', ''b.php''), (''content'', ''<?php'')]]
        PNone (PStr ''llama-3-70b'') (PStr ''professional''))) ''parsing''
       = Some (PStr ''completed'')
   \<and> should_continue (parse_code sample_collaborators (initial_state sample_collaborators ''s1'' 1
        [[(''path'', ''a.php''), (''content'', [])], [(''path'', ''b.php''), (''content'', ''<?php'')]]
        PNone (PStr ''llama-3-70b'') (PStr ''professional'')))
       = ''error''
   \<and> successors ParseCode (parse_code sample_collaborators (initial_state sample_collaborators ''s1'' 1
        [[(''path'', ''a.php''), (''content'', [])], [(''path'', ''b.php''), (''content'', ''<?php'')]]
        PNone (PStr ''llama-3-70b'') (PStr ''professional'')))
       = [RouteToAgents, HandleErrors]"
proof -
  let ?st = "initial_state sample_collaborators ''s1'' 1
        [[(''path'', ''a.php''), (''content'', [])], [(''path'', ''b.php''), (''content'', ''<?php'')]]
        PNone (PStr ''llama-3-70b'') (PStr ''professional'')"
  have h: "list_all (\<lambda>file_data. dict_has file_data ''path'') (files ?st)" by code_simp
  have w: "errors ?st @ parse_warnings sample_collaborators (files ?st) = [''Parse error in a.php: empty file'']"
    by code_simp
  from h w parse_failures_start_error_handling [OF h, of sample_collaborators]
  show ?thesis by simp
qed

text \<open>
  The claim as stated fails on a session of two files of which the first fails to parse:
  parsing completes with the one warning recorded, the guard answers \<open>error\<close>, and
  \<open>handle_errors\<close> starts beside \<open>route_to_agents\<close>; run on the state that parsing
  left, it marks the session \<open>failed\<close> in the store.
\<close>

theorem parse_failure_counterexample:
  "errors (parse_code sample_collaborators (initial_state sample_collaborators ''s1'' 1
        [[(''path'', ''a.php''), (''content'', [])], [(''path'', ''b.php''), (''content'', ''<?php'')]]
        PNone (PStr ''llama-3-70b'') (PStr ''professional'')))
       = [''Parse error in a.php: empty file'']
   \<and> marker (parse_code sample_collaborators (initial_state sample_collaborators ''s1'' 1
        [[(''path'', ''a.php''), (''content'', [])], [(''path'', ''b.php''), (''content'', ''<?php'')]]
        PNone (PStr ''llama-3-70b'') (PStr ''professional''))) ''parsing''
       = Some (PStr ''completed'')
   \<and> should_continue (parse_code sample_collaborators (initial_state sample_collaborators ''s1'' 1
        [[(''path'', ''a.php''), (''content'', [])], [(''path'', ''b.php''), (''content'', ''<?php'')]]
        PNone (PStr ''llama-3-70b'') (PStr ''professional''))) = ''error''
   \<and> successors ParseCode (parse_code sample_collaborators (initial_state sample_collaborators ''s1'' 1
        [[(''path'', ''a.php''), (''content'', [])], [(''path'', ''b.php''), (''content'', ''<?php'')]]
        PNone (PStr ''llama-3-70b'') (PStr ''professional'')))
       = [RouteToAgents, HandleErrors]
   \<and> statuses (snd (handle_errors sample_collaborators
        (parse_code sample_collaborators (initial_state sample_collaborators ''s1'' 1
           [[(''path'', ''a.php''), (''content'', [])], [(''path'', ''b.php''), (''content'', ''<?php'')]]
           PNone (PStr ''llama-3-70b'') (PStr ''professional'')),
         \<lparr>statuses = [], outputs = []\<rparr>)))
       = [(''s1'', ''failed'', Some ''Parse error in a.php: empty file'')]"
  by code_simp

section \<open>A stage that raises\<close>

lemma collect_results_eq:
  "collect_results C st =
     st\<lparr>current_agent := Some ''collector'',
        agent_outputs := dict_set (agent_outputs st) ''aggregated''
          (PDict
            [(''session_id'', PStr (session_id st)),
             (''project_id'', PInt (project_id st)),
             (''timestamp'', PStr (collected_at C)),
             (''agents_run'', PList (map PStr (dict_keys (agent_outputs st)))),
             (''results'', PDict (agent_outputs st)),
             (''metadata'', PDict (metadata st)),
             (''errors'', PList (map PStr (errors st)))]),
        progress := dict_set (progress st) ''collection'' (PDict [(''status'', PStr ''completed'')])\<rparr>"
  by (simp add: collect_results_def Let_def setitem2_started)

lemma store_results_eq:
  "store_results C w =
     (case store_outputs C (project_id (fst w)) (agent_outputs (fst w)) (snd w) of
        (Some e, db') \<Rightarrow>
          ((fst w)\<lparr>current_agent := Some ''storer'',
                   progress := dict_set (progress (fst w)) ''storage'' started,
                   errors := errors (fst w) @ [''Results storage failed: '' @ e]\<rparr>, db')
      | (None, db') \<Rightarrow>
          ((fst w)\<lparr>current_agent := Some ''storer'',
                   progress := dict_set (progress (fst w)) ''storage''
                     (PDict [(''status'', PStr ''completed'')])\<rparr>, db'))"
  by (simp add: store_results_def Let_def setitem2_started split: prod.splits option.splits)

lemma store_results_after:
  "dict_has (progress (fst (store_results C w))) ''storage''
   \<and> set (errors (fst w)) \<subseteq> set (errors (fst (store_results C w)))"
  by (auto simp: store_results_eq dict_has_set split: prod.splits option.splits)

text \<open>
  C7. For every session in which the documenter is switched on and its \<open>analyze\<close>
  raises: the node returns, with the fault recorded in the session's errors, no output
  written and the stage's marker left at \<open>started\<close>; the run goes on through
  \<open>collect_results\<close> and \<open>store_results\<close>, each of which returns, so the collection
  is marked \<open>completed\<close> and the storage step has run.
\<close>

theorem documenter_fault_absorbed:
  assumes "documenter_switch st = Inr switch" and "truthy switch"
    and "analyze C (parsed_elements st) (project_id st)
           (get_default (metadata st) ''model'' PNone)
           (get_default (metadata st) ''tone'' PNone) = Raised e"
  shows "run_documenter C st
           = Done (st\<lparr>current_agent := Some ''documenter'',
                      progress := dict_set (progress st) ''documenter'' started,
                      errors := errors st @ [''Documenter agent failed: '' @ e]\<rparr>)
       \<and> map fst (run_from C RunDocumenter (st, db)) = [RunDocumenter, CollectResults, StoreResults]
       \<and> list_all (\<lambda>step. returned (snd step)) (run_from C RunDocumenter (st, db))
       \<and> marker (fst (reached (final (st, db) (run_from C RunDocumenter (st, db))))) ''documenter''
           = Some (PStr ''started'')
       \<and> marker (fst (reached (final (st, db) (run_from C RunDocumenter (st, db))))) ''collection''
           = Some (PStr ''completed'')
       \<and> dict_has (progress (fst (reached (final (st, db) (run_from C RunDocumenter (st, db)))))) ''storage''
       \<and> ''Documenter agent failed: '' @ e
           \<in> set (errors (fst (reached (final (st, db) (run_from C RunDocumenter (st, db))))))"
proof -
  let ?st3 = "st\<lparr>current_agent := Some ''documenter'',
                   progress := dict_set (progress st) ''documenter'' started,
                   errors := errors st @ [''Documenter agent failed: '' @ e]\<rparr>"
  let ?st4 = "collect_results C ?st3"
  let ?w5 = "store_results C (?st4, db)"
  have doc: "run_documenter C st = Done ?st3"
    using assms by (simp add: run_documenter_eq)
  have tr: "run_from C RunDocumenter (st, db)
              = [(RunDocumenter, Done (?st3, db)), (CollectResults, Done (?st4, db)),
                 (StoreResults, Done ?w5)]"
    by (simp add: run_from_RunDocumenter doc run_from_CollectResults run_from_StoreResults)
  have fin: "fst (reached (final (st, db) (run_from C RunDocumenter (st, db)))) = fst ?w5"
    by (simp add: tr final_def reached_def)
  have fr: "frame [''storage''] ?st4 (fst ?w5)"
    using store_frame [of "(?st4, db)" C] by simp
  have m4: "marker ?st4 ''collection'' = Some (PStr ''completed'')"
    by (simp add: collect_results_eq marker_def dict_get_set dict_get_status)
  have d4: "marker ?st4 ''documenter'' = Some (PStr ''started'')"
    by (simp add: collect_results_eq marker_def dict_get_set started_def dict_get_status)
  have m5: "marker (fst ?w5) ''collection'' = Some (PStr ''completed'')"
    using frame_keeps(2) [OF fr, of "''collection''"] m4 by simp
  have d5: "marker (fst ?w5) ''documenter'' = Some (PStr ''started'')"
    using frame_keeps(2) [OF fr, of "''documenter''"] d4 by simp
  have e4: "''Documenter agent failed: '' @ e \<in> set (errors ?st4)"
    by (simp add: collect_results_eq)
  have s5: "dict_has (progress (fst ?w5)) ''storage''"
    and e5: "''Documenter agent failed: '' @ e \<in> set (errors (fst ?w5))"
    using store_results_after [of C "(?st4, db)"] e4 by auto
  show ?thesis
    using doc m5 d5 s5 e5
    by (simp add: fin) (simp add: tr returned_def)
qed


theorem documenter_fault_absorbed_witness:
  "documenter_switch sample_state = Inr (PBool True)
   \<and> truthy (PBool True)
   \<and> analyze failing_documenter (parsed_elements sample_state) (project_id sample_state)
        (get_default (metadata sample_state) ''model'' PNone)
        (get_default (metadata sample_state) ''tone'' PNone) = Raised ''boom''
   \<and> map fst (run_from failing_documenter RunDocumenter (sample_state, \<lparr>statuses = [], outputs = []\<rparr>))
       = [RunDocumenter, CollectResults, StoreResults]
   \<and> list_all (\<lambda>step. returned (snd step))
        (run_from failing_documenter RunDocumenter (sample_state, \<lparr>statuses = [], outputs = []\<rparr>))
   \<and> marker (fst (reached (final (sample_state, \<lparr>statuses = [], outputs = []\<rparr>)
        (run_from failing_documenter RunDocumenter (sample_state, \<lparr>statuses = [], outputs = []\<rparr>)))))
        ''collection'' = Some (PStr ''completed'')
   \<and> ''Documenter agent failed: boom''
       \<in> set (errors (fst (reached (final (sample_state, \<lparr>statuses = [], outputs = []\<rparr>)
        (run_from failing_documenter RunDocumenter (sample_state, \<lparr>statuses = [], outputs = []\<rparr>))))))"
proof -
  have a: "documenter_switch sample_state = Inr (PBool True)" by code_simp
  have b: "truthy (PBool True)" by simp
  have c: "analyze failing_documenter (parsed_elements sample_state) (project_id sample_state)
        (get_default (metadata sample_state) ''model'' PNone)
        (get_default (metadata sample_state) ''tone'' PNone) = Raised ''boom''"
    by (simp add: failing_documenter_def)
  from a b c documenter_fault_absorbed [OF a b c, of "\<lparr>statuses = [], outputs = []\<rparr>"]
  show ?thesis by simp
qed

section \<open>A stage that never returns\<close>

text \<open>
  C5 (as amended). The orchestrator sets no ceiling on the time a stage takes: for every
  session state in which the documenter is switched on, if its \<open>analyze\<close> never
  returns then the node that awaits it never returns. The run from that node starts no
  other node, \<open>handle_errors\<close> included; the store is left as it was, nothing is
  appended to the session's errors, and the stage's marker stays \<open>started\<close>.
\<close>

theorem stage_never_returns:
  assumes "documenter_switch st = Inr switch" and "truthy switch"
    and "analyze C (parsed_elements st) (project_id st)
           (get_default (metadata st) ''model'' PNone)
           (get_default (metadata st) ''tone'' PNone) = Hangs"
  shows "run_documenter C st
           = Stuck (st\<lparr>current_agent := Some ''documenter'',
                       progress := dict_set (progress st) ''documenter'' started\<rparr>)
       \<and> map fst (run_from C RunDocumenter (st, db)) = [RunDocumenter]
       \<and> list_all (\<lambda>step. \<not> returned (snd step)) (run_from C RunDocumenter (st, db))
       \<and> errors (fst (reached (final (st, db) (run_from C RunDocumenter (st, db))))) = errors st
       \<and> snd (reached (final (st, db) (run_from C RunDocumenter (st, db)))) = db
       \<and> marker (fst (reached (final (st, db) (run_from C RunDocumenter (st, db))))) ''documenter''
           = Some (PStr ''started'')"
proof -
  let ?st3 = "st\<lparr>current_agent := Some ''documenter'',
                   progress := dict_set (progress st) ''documenter'' started\<rparr>"
  have doc: "run_documenter C st = Stuck ?st3"
    using assms by (simp add: run_documenter_eq)
  have tr: "run_from C RunDocumenter (st, db) = [(RunDocumenter, Stuck (?st3, db))]"
    by (simp add: run_from_RunDocumenter doc)
  have m3: "marker ?st3 ''documenter'' = Some (PStr ''started'')"
    by (simp add: marker_def dict_get_set started_def dict_get_status)
  show ?thesis
    using doc m3 by (simp add: tr final_def reached_def returned_def)
qed

theorem stage_never_returns_witness:
  "documenter_switch sample_state = Inr (PBool True)
   \<and> truthy (PBool True)
   \<and> analyze hanging_documenter (parsed_elements sample_state) (project_id sample_state)
        (get_default (metadata sample_state) ''model'' PNone)
        (get_default (metadata sample_state) ''tone'' PNone) = Hangs
   \<and> map fst (run_from hanging_documenter RunDocumenter (sample_state, \<lparr>statuses = [], outputs = []\<rparr>))
       = [RunDocumenter]
   \<and> errors (fst (reached (final (sample_state, \<lparr>statuses = [], outputs = []\<rparr>)
        (run_from hanging_documenter RunDocumenter (sample_state, \<lparr>statuses = [], outputs = []\<rparr>)))))
       = errors sample_state
   \<and> marker (fst (reached (final (sample_state, \<lparr>statuses = [], outputs = []\<rparr>)
        (run_from hanging_documenter RunDocumenter (sample_state, \<lparr>statuses = [], outputs = []\<rparr>)))))
        ''documenter'' = Some (PStr ''started'')"
proof -
  have a: "documenter_switch sample_state = Inr (PBool True)" by code_simp
  have b: "truthy (PBool True)" by simp
  have c: "analyze hanging_documenter (parsed_elements sample_state) (project_id sample_state)
        (get_default (metadata sample_state) ''model'' PNone)
        (get_default (metadata sample_state) ''tone'' PNone) = Hangs"
    by (simp add: hanging_documenter_def)
  from a b c stage_never_returns [OF a b c, of "\<lparr>statuses = [], outputs = []\<rparr>"]
  show ?thesis by simp
qed

text \<open>
  The claim as stated fails on a session whose documenter never returns: the node is
  stuck, no other node starts, the session's errors stay empty, and the store has
  received no status.
\<close>

theorem timeout_counterexample:
  "map fst (run_from hanging_documenter RunDocumenter (sample_state, \<lparr>statuses = [], outputs = []\<rparr>))
       = [RunDocumenter]
   \<and> returned (snd (hd (run_from hanging_documenter RunDocumenter
        (sample_state, \<lparr>statuses = [], outputs = []\<rparr>)))) = False
   \<and> errors (fst (reached (final (sample_state, \<lparr>statuses = [], outputs = []\<rparr>)
        (run_from hanging_documenter RunDocumenter (sample_state, \<lparr>statuses = [], outputs = []\<rparr>)))))
       = []
   \<and> statuses (snd (reached (final (sample_state, \<lparr>statuses = [], outputs = []\<rparr>)
        (run_from hanging_documenter RunDocumenter (sample_state, \<lparr>statuses = [], outputs = []\<rparr>)))))
       = []"
  by code_simp

section \<open>The status of a session in the store\<close>


section \<open>Starting a session twice\<close>




section \<open>The status lookup\<close>

text \<open>
  C6. The lookup is to consult the in-process map, then the cache, then the store, and
  to return the view of the first tier that has the session. The code does otherwise on
  every session id that the in-process map has not: the \<open>await\<close> of the value that the
  cache's \<open>get\<close> returned raises \<open>TypeError\<close>, whatever the cache and the store hold.
  Here the store has the session, as \<open>completed\<close>, and the lookup raises after the
  first two tiers.
\<close>

theorem status_lookup_raises:
  "dict_get (active_sessions stored_only) ''s1'' = None
   \<and> get_analysis_session sample_collaborators (db_manager stored_only) ''s1''
       = Returned (PDict [(''session_id'', PStr ''s1''), (''status'', PStr ''completed'')])
   \<and> get_session_status J stored_only ''s1''
       = ([Memory, Cache], Raised ''object NoneType can't be used in 'await' expression'')"
  by (simp add: stored_only_def empty_orchestrator_def sample_collaborators_def sample_session_def
      get_session_status_def get_redis_def dict_get_def not_awaitable_def session_key_def)


end
